theory Spec2Isabelle
  imports Complex_Main
begin

section \<open>Absolute localisation sensor (sensorAbsloc.hpp)\<close>

text \<open>
  A shallow embedding of \<^verbatim>\<open>SensorAbsloc\<close> (\<^verbatim>\<open>init\<close> and \<^verbatim>\<open>process\<close>).
  The class fuses the readings of an absolute position sensor into the pose of a robot
  kept by an extended Kalman filter. The first reading defines the origin and the
  position directly; every later reading is handed to the filter as an innovation.
\<close>

subsection \<open>Scalars\<close>

text \<open>
  The source computes in \<^verbatim>\<open>double\<close>. A finite value is a real number here (rounding
  and overflow are not part of the model), and \<open>NaN\<close> is the not-a-number that the
  division of zero by zero yields. It propagates through every operation and every
  comparison with it is false, as in IEEE arithmetic. The infinities are not
  represented, and a division of a nonzero value by zero is \<open>NaN\<close> here too: the only
  division of the source is the one of \<^verbatim>\<open>init\<close>, whose divisor is a positive number or,
  with a zero dividend, zero (lemma \<open>accumulate_zero_sum\<close> below).
\<close>

datatype dbl = Num real | NaN

instantiation dbl :: "{plus, minus, uminus, times, inverse, ord}"
begin

fun plus_dbl :: "dbl \<Rightarrow> dbl \<Rightarrow> dbl" where
  "plus_dbl (Num a) (Num b) = Num (a + b)"
| "plus_dbl _ _ = NaN"

fun minus_dbl :: "dbl \<Rightarrow> dbl \<Rightarrow> dbl" where
  "minus_dbl (Num a) (Num b) = Num (a - b)"
| "minus_dbl _ _ = NaN"

fun uminus_dbl :: "dbl \<Rightarrow> dbl" where
  "uminus_dbl (Num a) = Num (- a)"
| "uminus_dbl NaN = NaN"

fun times_dbl :: "dbl \<Rightarrow> dbl \<Rightarrow> dbl" where
  "times_dbl (Num a) (Num b) = Num (a * b)"
| "times_dbl _ _ = NaN"

fun divide_dbl :: "dbl \<Rightarrow> dbl \<Rightarrow> dbl" where
  "divide_dbl (Num a) (Num b) = (if b = 0 then NaN else Num (a / b))"
| "divide_dbl _ _ = NaN"

fun inverse_dbl :: "dbl \<Rightarrow> dbl" where
  "inverse_dbl (Num a) = (if a = 0 then NaN else Num (1 / a))"
| "inverse_dbl NaN = NaN"

fun less_dbl :: "dbl \<Rightarrow> dbl \<Rightarrow> bool" where
  "less_dbl (Num a) (Num b) = (a < b)"
| "less_dbl _ _ = False"

fun less_eq_dbl :: "dbl \<Rightarrow> dbl \<Rightarrow> bool" where
  "less_eq_dbl (Num a) (Num b) = (a \<le> b)"
| "less_eq_dbl _ _ = False"

instance ..

end

text \<open>The value of a finite scalar.\<close>

fun num_of :: "dbl \<Rightarrow> real" where
  "num_of (Num a) = a"
| "num_of NaN = 0"

text \<open>
  Modelled from the spec: \<^verbatim>\<open>jmath::sqr\<close> is not in the source under study. The spec
  calls its result the squared deviation.
\<close>

definition sqr :: "dbl \<Rightarrow> dbl" where
  "sqr a = a * a"

subsection \<open>Vectors and matrices\<close>

text \<open>
  A \<^verbatim>\<open>jblas::vec\<close> is the list of its entries and a \<^verbatim>\<open>jblas::mat\<close> the list of its
  rows. An access outside a vector is undefined behaviour in the source and
  unspecified here; the theorems below state the sizes they need.
\<close>

type_synonym vec = "dbl list"
type_synonym mat = "dbl list list"

definition zero_vec :: "nat \<Rightarrow> vec" where
  "zero_vec n = replicate n (Num 0)"

definition identity_mat :: "nat \<Rightarrow> mat" where
  "identity_mat n = map (\<lambda>i. map (\<lambda>j. if i = j then Num 1 else Num 0) [0..<n]) [0..<n]"

definition vec_add :: "vec \<Rightarrow> vec \<Rightarrow> vec" where
  "vec_add a b = map2 (+) a b"

definition vec_sub :: "vec \<Rightarrow> vec \<Rightarrow> vec" where
  "vec_sub a b = map2 (-) a b"

definition mat_add :: "mat \<Rightarrow> mat \<Rightarrow> mat" where
  "mat_add A B = map2 vec_add A B"

definition mat_neg :: "mat \<Rightarrow> mat" where
  "mat_neg A = map (map uminus) A"

text \<open>\<^verbatim>\<open>ublas::subrange(v, a, b)\<close> read: the entries \<open>a \<le> i < b\<close>.\<close>

definition subrange :: "vec \<Rightarrow> nat \<Rightarrow> nat \<Rightarrow> vec" where
  "subrange v a b = take (b - a) (drop a v)"

text \<open>\<^verbatim>\<open>ublas::subrange(v, a, b) = w\<close>: the entries \<open>a \<le> i < b\<close> of \<open>v\<close> are overwritten.\<close>

definition assign_subrange :: "vec \<Rightarrow> nat \<Rightarrow> nat \<Rightarrow> vec \<Rightarrow> vec" where
  "assign_subrange v a b w =
     map (\<lambda>i. if a \<le> i \<and> i < b then w ! (i - a) else v ! i) [0..<length v]"

text \<open>\<^verbatim>\<open>ublas::subrange(M, r0, r1, c0, c1)\<close>, read and written.\<close>

definition subrange_m :: "mat \<Rightarrow> nat \<Rightarrow> nat \<Rightarrow> nat \<Rightarrow> nat \<Rightarrow> mat" where
  "subrange_m M r0 r1 c0 c1 = map (\<lambda>row. subrange row c0 c1) (take (r1 - r0) (drop r0 M))"

definition assign_subrange_m :: "mat \<Rightarrow> nat \<Rightarrow> nat \<Rightarrow> nat \<Rightarrow> nat \<Rightarrow> mat \<Rightarrow> mat" where
  "assign_subrange_m M r0 r1 c0 c1 B =
     map (\<lambda>i. if r0 \<le> i \<and> i < r1 then assign_subrange (M ! i) c0 c1 (B ! (i - r0)) else M ! i)
       [0..<length M]"

text \<open>\<^verbatim>\<open>ublas::project(M, ia, ja)\<close>: the rows \<open>ia\<close> and columns \<open>ja\<close> of \<open>M\<close>.\<close>

definition project :: "mat \<Rightarrow> nat list \<Rightarrow> nat list \<Rightarrow> mat" where
  "project M ia ja = map (\<lambda>i. map (\<lambda>j. M ! i ! j) ja) ia"

definition dot :: "vec \<Rightarrow> vec \<Rightarrow> dbl" where
  "dot a b = foldr (+) (map2 (*) a b) (Num 0)"

definition mat_vec :: "mat \<Rightarrow> vec \<Rightarrow> vec" where
  "mat_vec M v = map (\<lambda>row. dot row v) M"

text \<open>
  Modelled from the spec: \<^verbatim>\<open>ublasExtra::prod_JPJt(P, J)\<close> is not in the source under
  study. The spec calls it the covariance propagation \<open>J \<cdot> P \<cdot> J\<^sup>t\<close>; its entry
  \<open>(i, k)\<close> is row \<open>i\<close> of \<open>J\<close> times \<open>P\<close> times row \<open>k\<close> of \<open>J\<close>.
\<close>

definition prod_JPJt :: "mat \<Rightarrow> mat \<Rightarrow> mat" where
  "prod_JPJt P J = map (\<lambda>ji. map (\<lambda>jk. dot ji (mat_vec P jk)) J) J"

text \<open>
  Modelled from the spec: \<^verbatim>\<open>quaternion::rotate(q, v)\<close> is not in the source under
  study. The spec calls it the rotation of a 3-vector by a unit quaternion; this is
  the rotation matrix of \<open>q = (a, b, c, d)\<close> applied to \<open>v = (x, y, z)\<close>.
\<close>

definition quaternion_rotate :: "vec \<Rightarrow> vec \<Rightarrow> vec" where
  "quaternion_rotate q v =
     (let a = q ! 0; b = q ! 1; c = q ! 2; d = q ! 3; x = v ! 0; y = v ! 1; z = v ! 2
      in [(a * a + b * b - c * c - d * d) * x + Num 2 * (b * c - a * d) * y + Num 2 * (b * d + a * c) * z,
          Num 2 * (b * c + a * d) * x + (a * a - b * b + c * c - d * d) * y + Num 2 * (c * d - a * b) * z,
          Num 2 * (b * d - a * c) * x + Num 2 * (c * d + a * b) * y + (a * a - b * b - c * c + d * d) * z])"

text \<open>
  Modelled from the spec: \<^verbatim>\<open>quaternion::rotate_by_dq(q, v, M)\<close> is not in the source
  under study. The spec calls it the Jacobian of the rotation with respect to the
  quaternion: row \<open>i\<close>, column \<open>k\<close> is the derivative of entry \<open>i\<close> of the rotated
  vector by entry \<open>k\<close> of \<open>q\<close> (lemmas \<open>rotate_by_dq_derivative_a\<close> to
  \<open>rotate_by_dq_derivative_d\<close> below).
\<close>

definition quaternion_rotate_by_dq :: "vec \<Rightarrow> vec \<Rightarrow> mat" where
  "quaternion_rotate_by_dq q v =
     (let a = q ! 0; b = q ! 1; c = q ! 2; d = q ! 3; x = v ! 0; y = v ! 1; z = v ! 2;
          axdycz = Num 2 * (a * x - d * y + c * z);
          bxcydz = Num 2 * (b * x + c * y + d * z);
          cxbyaz = Num 2 * (c * x - b * y - a * z);
          dxaybz = Num 2 * (d * x + a * y - b * z)
      in [[axdycz, bxcydz, - cxbyaz, - dxaybz],
          [dxaybz, cxbyaz, bxcydz, axdycz],
          [- cxbyaz, dxaybz, - axdycz, bxcydz]])"

subsection \<open>The state\<close>

text \<open>
  \<^verbatim>\<open>Innovation\<close>, \<^verbatim>\<open>Measurement\<close>, \<^verbatim>\<open>Expectation\<close> and the robot's pose are Gaussians:
  a mean \<^verbatim>\<open>x()\<close> and a covariance \<^verbatim>\<open>P()\<close>.
\<close>

record gaussian =
  g_x :: vec
  g_P :: mat

text \<open>
  The hardware sensor is outside the source under study and is a parameter: what the
  three calls of the source return for a driver state \<open>'h\<close>. \<^verbatim>\<open>queryAvailableRaws\<close>
  gives the identifiers of the window, \<^verbatim>\<open>observeRaw\<close> reads a raw without consuming
  it, \<^verbatim>\<open>getRaw\<close> reads and consumes.
\<close>

record 'h hardware_sensor =
  queryAvailableRaws :: "'h \<Rightarrow> nat list"
  observeRaw :: "'h \<Rightarrow> nat \<Rightarrow> vec"
  getRaw :: "'h \<Rightarrow> nat \<Rightarrow> vec \<times> 'h"

text \<open>
  The members of \<^verbatim>\<open>SensorAbsloc\<close>, the members it inherits (\<^verbatim>\<open>use_for_init\<close>,
  \<^verbatim>\<open>reading.data\<close>, its own \<^verbatim>\<open>pose.x()\<close> and the driver), and what it reaches through
  \<^verbatim>\<open>robotPtr()\<close>: the origin, the robot's pose, the covariance of the filter and the
  indices of the used states of the map.
\<close>

record 'h state =
  ia_rs :: "nat list"
  innovation :: gaussian
  measurement :: gaussian
  expectation :: gaussian
  EXP_rs :: mat
  INN_rs :: mat
  EXP_q :: mat
  hasVar :: bool
  inns :: nat
  absolute :: bool
  use_for_init :: bool
  reading :: vec
  pose_x :: vec
  hardwareSensor :: 'h
  origin :: vec
  robot_pose :: gaussian
  filter_P :: mat
  ia_used_states :: "nat list"

subsection \<open>init: the calibration estimator\<close>

text \<open>
  The body of the first loop for one raw and one axis: the variance
  \<^verbatim>\<open>reading.data(i+1+inns)\<close> replaces \<^verbatim>\<open>min_var(i)\<close> when it is smaller.
\<close>

definition update_min_axis :: "nat \<Rightarrow> vec \<Rightarrow> vec \<Rightarrow> nat \<Rightarrow> vec" where
  "update_min_axis n r min_var i =
     (if r ! (i + 1 + n) < min_var ! i then min_var[i := r ! (i + 1 + n)] else min_var)"

text \<open>\<^verbatim>\<open>for(int i = 0; i < 3; ++i)\<close> of line 82.\<close>

definition update_min_var :: "nat \<Rightarrow> vec \<Rightarrow> vec \<Rightarrow> vec" where
  "update_min_var n r min_var = foldl (update_min_axis n r) min_var [0, 1, 2]"

text \<open>The first loop: over the window, until the raw \<open>rid\<close> (the \<^verbatim>\<open>id\<close> of the source) has been read.\<close>

fun find_min_var :: "(nat \<Rightarrow> vec) \<Rightarrow> nat \<Rightarrow> nat \<Rightarrow> nat list \<Rightarrow> vec \<times> vec \<Rightarrow> vec \<times> vec" where
  "find_min_var obs n rid [] (r, min_var) = (r, min_var)"
| "find_min_var obs n rid (it # its) (r, min_var) =
     (let r' = obs it; min_var' = update_min_var n r' min_var
      in if it = rid then (r', min_var') else find_min_var obs n rid its (r', min_var'))"

text \<open>
  The body of the second loop for one raw and one axis: a raw whose variance is below
  \<^verbatim>\<open>2*min_var(i)\<close> adds value times variance to \<^verbatim>\<open>average(i)\<close> and its variance to
  \<^verbatim>\<open>sum_coeffs(i)\<close>.
\<close>

definition accumulate_axis :: "nat \<Rightarrow> vec \<Rightarrow> vec \<Rightarrow> vec \<times> vec \<Rightarrow> nat \<Rightarrow> vec \<times> vec" where
  "accumulate_axis n min_var r acc i =
     (let (average, sum_coeffs) = acc
      in if r ! (i + 1 + n) < Num 2 * min_var ! i
         then (average[i := average ! i + r ! (i + 1) * r ! (i + 1 + n)],
               sum_coeffs[i := sum_coeffs ! i + r ! (i + 1 + n)])
         else (average, sum_coeffs))"

text \<open>\<^verbatim>\<open>for(int i = 0; i < 3; ++i)\<close> of lines 92 to 94.\<close>

definition accumulate_raw :: "nat \<Rightarrow> vec \<Rightarrow> vec \<Rightarrow> vec \<times> vec \<Rightarrow> vec \<times> vec" where
  "accumulate_raw n min_var r acc = foldl (accumulate_axis n min_var r) acc [0, 1, 2]"

fun accumulate :: "(nat \<Rightarrow> vec) \<Rightarrow> nat \<Rightarrow> nat \<Rightarrow> vec \<Rightarrow> nat list \<Rightarrow> vec \<times> vec \<times> vec \<Rightarrow> vec \<times> vec \<times> vec" where
  "accumulate obs n rid min_var [] (r, acc) = (r, acc)"
| "accumulate obs n rid min_var (it # its) (r, acc) =
     (let r' = obs it; acc' = accumulate_raw n min_var r' acc
      in if it = rid then (r', acc') else accumulate obs n rid min_var its (r', acc'))"

text \<open>\<^verbatim>\<open>for i < 3: average(i) /= sum_coeffs(i)\<close>.\<close>

definition divide_average :: "vec \<Rightarrow> vec \<Rightarrow> vec" where
  "divide_average average sum_coeffs =
     foldl (\<lambda>av i. av[i := av ! i / sum_coeffs ! i]) average [0, 1, 2]"

text \<open>
  \<^verbatim>\<open>for i < 3: reading.data(i+1) = average(i); reading.data(i+1+inns) = min_var(i)\<close>.
\<close>

definition store_calibration :: "nat \<Rightarrow> vec \<Rightarrow> vec \<Rightarrow> vec \<Rightarrow> vec" where
  "store_calibration n average min_var r =
     foldl (\<lambda>d i. d[i + 1 := average ! i, i + 1 + n := min_var ! i]) r [0, 1, 2]"

definition init :: "'h hardware_sensor \<Rightarrow> nat \<Rightarrow> 'h state \<Rightarrow> 'h state" where
  "init hw rid s =
     (let available = queryAvailableRaws hw (hardwareSensor s);
          obs = observeRaw hw (hardwareSensor s);
          (r1, min_var) = find_min_var obs (inns s) rid available
                            (reading s, [Num 1000, Num 1000, Num 1000]);
          (r2, average, sum_coeffs) = accumulate obs (inns s) rid min_var available
                            (r1, zero_vec 3, zero_vec 3);
          average' = divide_average average sum_coeffs
      in s\<lparr>reading := store_calibration (inns s) average' min_var r2\<rparr>)"

subsection \<open>process\<close>

text \<open>
  Modelled from the spec: the macro \<^verbatim>\<open>JFR_ERROR\<close> is not in the source under study.
  The spec has \<^verbatim>\<open>process\<close> fail at both of its uses, so it throws: an
  \<^verbatim>\<open>RtslamException\<close> of kind \<^verbatim>\<open>GENERIC_ERROR\<close>. The two throws differ by their
  message: "SensorAbsloc with constant uncertainty not implemented yet", and
  "SensorAbsloc reading size \<open>n\<close> not supported." with \<open>n\<close> the value of
  \<^verbatim>\<open>reading.data.size()\<close>.
\<close>

datatype rtslam_error =
    ConstantUncertaintyNotImplemented
  | ReadingSizeNotSupported nat

text \<open>
  \<^verbatim>\<open>filterPtr->correct(ia_x, *innovation, INN_rs, ia_rs)\<close> is outside the source under
  study and is a parameter: from the indices of the used states, the innovation, the
  cross-Jacobian and the indices \<^verbatim>\<open>ia_rs\<close> it maps the robot's pose and the covariance
  of the filter to their corrected values.
\<close>

type_synonym correct_fn =
  "nat list \<Rightarrow> gaussian \<Rightarrow> mat \<Rightarrow> nat list \<Rightarrow> gaussian \<times> mat \<Rightarrow> gaussian \<times> mat"

text \<open>Lines 106 to 112: the calibrated reading, or the raw \<open>rid\<close> from the driver.\<close>

definition acquire :: "'h hardware_sensor \<Rightarrow> nat \<Rightarrow> 'h state \<Rightarrow> 'h state" where
  "acquire hw rid s =
     (if use_for_init s then init hw rid s
      else (let (r, h) = getRaw hw (hardwareSensor s) rid
            in s\<lparr>reading := r, hardwareSensor := h\<rparr>))"

text \<open>
  Lines 134 to 136: the Jacobian of the expectation by the pose, \<^verbatim>\<open>EXP_rs\<close>, and its
  block by the quaternion, \<^verbatim>\<open>EXP_q\<close>.
\<close>

definition set_jacobian :: "vec \<Rightarrow> vec \<Rightarrow> 'h state \<Rightarrow> 'h state" where
  "set_jacobian q T s =
     s\<lparr>EXP_q := quaternion_rotate_by_dq q T,
       EXP_rs := assign_subrange_m (assign_subrange_m (EXP_rs s) 0 3 0 3 (identity_mat 3))
                   0 3 3 7 (quaternion_rotate_by_dq q T)\<rparr>"

text \<open>Lines 138 and 139: the expectation.\<close>

definition set_expectation :: "vec \<Rightarrow> vec \<Rightarrow> 'h state \<Rightarrow> 'h state" where
  "set_expectation p Tr s =
     s\<lparr>expectation :=
         \<lparr>g_x = vec_add p Tr,
          g_P = prod_JPJt (project (filter_P s) (ia_rs s) (ia_rs s)) (EXP_rs s)\<rparr>\<rparr>"

text \<open>Lines 141 to 143: the measurement, relative to the origin.\<close>

definition set_measurement_x :: "'h state \<Rightarrow> 'h state" where
  "set_measurement_x s =
     s\<lparr>measurement := (measurement s)
         \<lparr>g_x := (g_x (measurement s))
            [0 := reading s ! 2 - origin s ! 0,
             1 := reading s ! 1 - origin s ! 1,
             2 := reading s ! 3 - origin s ! 2]\<rparr>\<rparr>"

text \<open>Lines 146 to 148: the diagonal of the covariance of the measurement.\<close>

definition set_measurement_P :: "'h state \<Rightarrow> 'h state" where
  "set_measurement_P s =
     (let mP = g_P (measurement s);
          mP0 = mP[0 := (mP ! 0)[0 := sqr (reading s ! (2 + inns s))]];
          mP1 = mP0[1 := (mP0 ! 1)[1 := sqr (reading s ! (1 + inns s))]];
          mP2 = mP1[2 := (mP1 ! 2)[2 := sqr (reading s ! (3 + inns s))]]
      in s\<lparr>measurement := (measurement s)\<lparr>g_P := mP2\<rparr>\<rparr>)"

text \<open>Lines 158 to 160: the innovation and the cross-Jacobian.\<close>

definition set_innovation :: "'h state \<Rightarrow> 'h state" where
  "set_innovation s =
     s\<lparr>innovation :=
         \<lparr>g_x = vec_sub (g_x (measurement s)) (g_x (expectation s)),
          g_P = mat_add (g_P (measurement s)) (g_P (expectation s))\<rparr>,
       INN_rs := mat_neg (EXP_rs s)\<rparr>"

text \<open>
  Lines 133 to 161, the case 3 of the first switch. \<open>T\<close>, \<open>p\<close>, \<open>q\<close> and \<open>Tr\<close> are the
  locals of lines 126 to 129. The error leaves the state as it is at the throw.
\<close>

definition model_pos :: "vec \<Rightarrow> vec \<Rightarrow> vec \<Rightarrow> vec \<Rightarrow> 'h state \<Rightarrow> rtslam_error option \<times> 'h state" where
  "model_pos T p q Tr s =
     (let s1 = set_measurement_x (set_expectation p Tr (set_jacobian q T s))
      in if hasVar s1
         then (None, set_innovation (set_measurement_P s1))
         else (Some ConstantUncertaintyNotImplemented, s1))"

text \<open>
  Lines 131 to 165, the first switch: \<^verbatim>\<open>innovation\<close> is built with size \<^verbatim>\<open>inns\<close>
  (\<^verbatim>\<open>setHardwareSensor\<close>), so \<^verbatim>\<open>innovation->size()\<close> is \<^verbatim>\<open>inns\<close>.
\<close>

definition measurement_model :: "vec \<Rightarrow> vec \<Rightarrow> vec \<Rightarrow> vec \<Rightarrow> 'h state \<Rightarrow> rtslam_error option \<times> 'h state" where
  "measurement_model T p q Tr s =
     (if inns s = 3 then model_pos T p q Tr s
      else (Some (ReadingSizeNotSupported (length (reading s))), s))"

text \<open>
  Lines 170 to 196, the first reading: the origin, the position and the covariance of
  the position are set directly. (The source then prints them.)
\<close>

definition bootstrap :: "vec \<Rightarrow> 'h state \<Rightarrow> 'h state" where
  "bootstrap Tr s =
     (let pose_P = prod_JPJt (subrange_m (g_P (robot_pose s)) 3 7 3 7) (EXP_q s);
          P' = assign_subrange_m (g_P (robot_pose s)) 0 3 0 3 (mat_add (g_P (measurement s)) pose_P)
      in if absolute s
         then (if inns s = 3
               then s\<lparr>origin := zero_vec 3,
                      robot_pose := \<lparr>g_x = assign_subrange (g_x (robot_pose s)) 0 3
                                             (vec_sub (g_x (measurement s)) Tr),
                                     g_P = P'\<rparr>\<rparr>
               else s)
         else (if inns s = 3
               then s\<lparr>origin := vec_sub (g_x (measurement s)) Tr,
                      robot_pose := \<lparr>g_x = assign_subrange (g_x (robot_pose s)) 0 3 (zero_vec 3),
                                     g_P = P'\<rparr>\<rparr>
               else s))"

text \<open>Lines 204 to 206, every later reading: the correction of the filter.\<close>

definition dispatch :: "correct_fn \<Rightarrow> 'h state \<Rightarrow> 'h state" where
  "dispatch correct s =
     (let (pose', P') = correct (ia_used_states s) (innovation s) (INN_rs s) (ia_rs s)
                          (robot_pose s, filter_P s)
      in s\<lparr>robot_pose := pose', filter_P := P'\<rparr>)"

text \<open>Lines 209 to 213: after a calibrated reading the raw is fetched to free it.\<close>

definition release :: "'h hardware_sensor \<Rightarrow> nat \<Rightarrow> 'h state \<Rightarrow> 'h state" where
  "release hw rid s =
     (if use_for_init s
      then (let (r, h) = getRaw hw (hardwareSensor s) rid
            in s\<lparr>use_for_init := False, reading := r, hardwareSensor := h\<rparr>)
      else s)"

text \<open>
  \<^verbatim>\<open>process(id)\<close>. The result is the exception thrown, if any, and the state the call
  leaves behind: that of the throw when it throws.
\<close>

definition process ::
  "'h hardware_sensor \<Rightarrow> correct_fn \<Rightarrow> nat \<Rightarrow> 'h state \<Rightarrow> rtslam_error option \<times> 'h state" where
  "process hw correct rid s =
     (let s0 = acquire hw rid s;
          first = (length (origin s0) = 0);
          s1 = (if first then s0\<lparr>origin := zero_vec 3\<rparr> else s0);
          T = subrange (pose_x s1) 0 3;
          p = subrange (g_x (robot_pose s1)) 0 3;
          q = subrange (g_x (robot_pose s1)) 3 7;
          Tr = quaternion_rotate q T
      in case measurement_model T p q Tr s1 of
           (Some e, s2) \<Rightarrow> (Some e, s2)
         | (None, s2) \<Rightarrow>
             (None, release hw rid (if first then bootstrap Tr s2 else dispatch correct s2)))"

text \<open>
  A sequence of calls on one sensor. An exception goes to the caller, who may go on
  with the next reading.
\<close>

fun run :: "'h hardware_sensor \<Rightarrow> correct_fn \<Rightarrow> nat list \<Rightarrow> 'h state \<Rightarrow> 'h state" where
  "run hw correct [] s = s"
| "run hw correct (rid # rids) s = run hw correct rids (snd (process hw correct rid s))"

subsection \<open>The states of a call\<close>

text \<open>
  Two states inside \<^verbatim>\<open>process\<close> that the lemmas name: the one after line 124 (the
  reading is there and an unset origin has been sized and cleared), and the one after
  line 143 (the Jacobian, the expectation and the measurement are there).
\<close>

definition prepared :: "'h hardware_sensor \<Rightarrow> nat \<Rightarrow> 'h state \<Rightarrow> 'h state" where
  "prepared hw rid s =
     (if origin s = [] then (acquire hw rid s)\<lparr>origin := zero_vec 3\<rparr> else acquire hw rid s)"

definition modelled :: "'h hardware_sensor \<Rightarrow> nat \<Rightarrow> 'h state \<Rightarrow> 'h state" where
  "modelled hw rid s =
     set_measurement_x
       (set_expectation (subrange (g_x (robot_pose s)) 0 3)
          (quaternion_rotate (subrange (g_x (robot_pose s)) 3 7) (subrange (pose_x s) 0 3))
          (set_jacobian (subrange (g_x (robot_pose s)) 3 7) (subrange (pose_x s) 0 3)
             (prepared hw rid s)))"

text \<open>
  The window of \<^verbatim>\<open>init\<close>: the identifiers both loops visit, up to and including the
  first \<open>rid\<close>, or all of them when \<open>rid\<close> is not among them.
\<close>

fun window_upto :: "nat \<Rightarrow> nat list \<Rightarrow> nat list" where
  "window_upto rid [] = []"
| "window_upto rid (it # its) = (if it = rid then [it] else it # window_upto rid its)"

subsection \<open>Concrete sensors\<close>

text \<open>
  A sensor with the sizes \<^verbatim>\<open>setHardwareSensor\<close> gives it for a driver with three data
  and three variance channels, all entries zero: the origin unset, no lever arm, the
  robot at the identity orientation. Its driver always returns the raw \<open>(5, 5, 5)\<close>
  with deviations \<open>1\<close>; its filter corrects nothing.
\<close>

definition zero_mat :: "nat \<Rightarrow> nat \<Rightarrow> mat" where
  "zero_mat m n = replicate m (zero_vec n)"

definition example_raw :: vec where
  "example_raw = [Num 0, Num 5, Num 5, Num 5, Num 1, Num 1, Num 1]"

definition example_hw :: "unit hardware_sensor" where
  "example_hw = \<lparr>queryAvailableRaws = (\<lambda>h. [0]), observeRaw = (\<lambda>h rid. example_raw),
                  getRaw = (\<lambda>h rid. (example_raw, h))\<rparr>"

definition example_correct :: correct_fn where
  "example_correct ia_x inn J ia pf = pf"

definition example_state :: "unit state" where
  "example_state =
     \<lparr>ia_rs = [0, 1, 2, 3, 4, 5, 6],
      innovation = \<lparr>g_x = zero_vec 3, g_P = zero_mat 3 3\<rparr>,
      measurement = \<lparr>g_x = zero_vec 3, g_P = zero_mat 3 3\<rparr>,
      expectation = \<lparr>g_x = zero_vec 3, g_P = zero_mat 3 3\<rparr>,
      EXP_rs = zero_mat 3 7, INN_rs = zero_mat 3 7, EXP_q = zero_mat 3 4,
      hasVar = True, inns = 3, absolute = False, use_for_init = False,
      reading = zero_vec 7, pose_x = [Num 0, Num 0, Num 0, Num 1, Num 0, Num 0, Num 0],
      hardwareSensor = (),
      origin = [],
      robot_pose = \<lparr>g_x = [Num 0, Num 0, Num 0, Num 1, Num 0, Num 0, Num 0], g_P = zero_mat 7 7\<rparr>,
      filter_P = zero_mat 7 7, ia_used_states = [0, 1, 2, 3, 4, 5, 6]\<rparr>"

text \<open>The same sensor mounted one unit ahead of the robot's reference point.\<close>

definition lever_state :: "unit state" where
  "lever_state = example_state\<lparr>pose_x := [Num 1, Num 0, Num 0, Num 1, Num 0, Num 0, Num 0]\<rparr>"

text \<open>The same sensor once its origin is set.\<close>

definition later_state :: "unit state" where
  "later_state = example_state\<lparr>origin := [Num 1, Num 2, Num 3]\<rparr>"

text \<open>
  A sensor whose driver has seven data and seven variance channels (position and
  orientation), before its first reading.
\<close>

definition pose_raw :: vec where
  "pose_raw = [Num 0, Num 5, Num 5, Num 5, Num 1, Num 0, Num 0, Num 0,
               Num 1, Num 1, Num 1, Num 1, Num 1, Num 1, Num 1]"

definition pose_hw :: "unit hardware_sensor" where
  "pose_hw = \<lparr>queryAvailableRaws = (\<lambda>h. [0]), observeRaw = (\<lambda>h rid. pose_raw),
               getRaw = (\<lambda>h rid. (pose_raw, h))\<rparr>"

definition pose_state :: "unit state" where
  "pose_state = example_state\<lparr>inns := 7\<rparr>"

text \<open>
  Calibration windows. The first holds three raws whose values on every axis are
  \<open>10\<close>, \<open>11\<close> and \<open>100\<close> with the variances \<open>1\<close>, \<open>1.5\<close> and \<open>5\<close>; the second one raw
  of variance \<open>2000\<close>; the third is empty.
\<close>

definition calib_raw :: "nat \<Rightarrow> vec" where
  "calib_raw rid =
     (if rid = 0 then [Num 0, Num 10, Num 10, Num 10, Num 1, Num 1, Num 1]
      else if rid = 1 then [Num 1, Num 11, Num 11, Num 11, Num (3 / 2), Num (3 / 2), Num (3 / 2)]
      else [Num 2, Num 100, Num 100, Num 100, Num 5, Num 5, Num 5])"

definition calib_hw :: "unit hardware_sensor" where
  "calib_hw = \<lparr>queryAvailableRaws = (\<lambda>h. [0, 1, 2]), observeRaw = (\<lambda>h. calib_raw),
                getRaw = (\<lambda>h rid. (calib_raw rid, h))\<rparr>"

definition calib_state :: "unit state" where
  "calib_state = example_state\<lparr>use_for_init := True\<rparr>"

definition noisy_raw :: vec where
  "noisy_raw = [Num 0, Num 5, Num 5, Num 5, Num 2000, Num 2000, Num 2000]"

definition noisy_hw :: "unit hardware_sensor" where
  "noisy_hw = \<lparr>queryAvailableRaws = (\<lambda>h. [0]), observeRaw = (\<lambda>h rid. noisy_raw),
                getRaw = (\<lambda>h rid. (noisy_raw, h))\<rparr>"

definition empty_hw :: "unit hardware_sensor" where
  "empty_hw = \<lparr>queryAvailableRaws = (\<lambda>h. []), observeRaw = (\<lambda>h rid. example_raw),
                getRaw = (\<lambda>h rid. (example_raw, h))\<rparr>"

text \<open>The variances of the first window.\<close>

definition calib_var :: "nat \<Rightarrow> real" where
  "calib_var rid = (if rid = 0 then 1 else if rid = 1 then 3 / 2 else 5)"

text \<open>
  A driver whose raw has a different value and a different deviation on every channel.
\<close>

definition skew_raw :: vec where
  "skew_raw = [Num 0, Num 5, Num 6, Num 7, Num 2, Num 3, Num 4]"

definition skew_hw :: "unit hardware_sensor" where
  "skew_hw = \<lparr>queryAvailableRaws = (\<lambda>h. [0]), observeRaw = (\<lambda>h rid. skew_raw),
               getRaw = (\<lambda>h rid. (skew_raw, h))\<rparr>"

section \<open>Properties\<close>

subsection \<open>Vectors and matrices\<close>

lemma length_assign_subrange [simp]: "length (assign_subrange v a b w) = length v"
  by (simp add: assign_subrange_def)

lemma nth_assign_subrange:
  "i < length v \<Longrightarrow> assign_subrange v a b w ! i = (if a \<le> i \<and> i < b then w ! (i - a) else v ! i)"
  by (simp add: assign_subrange_def)

lemma drop_assign_subrange: "b \<le> k \<Longrightarrow> drop k (assign_subrange v a b w) = drop k v"
  by (rule nth_equalityI) (simp_all add: nth_assign_subrange)

lemma length_assign_subrange_m [simp]: "length (assign_subrange_m M r0 r1 c0 c1 B) = length M"
  by (simp add: assign_subrange_m_def)

lemma nth_assign_subrange_m:
  "i < length M \<Longrightarrow> assign_subrange_m M r0 r1 c0 c1 B ! i =
     (if r0 \<le> i \<and> i < r1 then assign_subrange (M ! i) c0 c1 (B ! (i - r0)) else M ! i)"
  by (simp add: assign_subrange_m_def)

lemma map_length_assign_subrange_m [simp]:
  "map length (assign_subrange_m M r0 r1 c0 c1 B) = map length M"
  by (rule nth_equalityI) (simp_all add: nth_assign_subrange_m)

lemma length_rotate [simp]: "length (quaternion_rotate q v) = 3"
  by (simp add: quaternion_rotate_def Let_def)

lemma length_zero_vec [simp]: "length (zero_vec n) = n"
  by (simp add: zero_vec_def)

lemma length_vec_sub [simp]: "length (vec_sub a b) = min (length a) (length b)"
  by (simp add: vec_sub_def)

lemma subrange_assign_same:
  "length w = b - a \<Longrightarrow> a \<le> b \<Longrightarrow> b \<le> length v \<Longrightarrow> subrange (assign_subrange v a b w) a b = w"
  by (rule nth_equalityI) (auto simp: subrange_def nth_assign_subrange)

lemma subrange_assign_before:
  "b \<le> c \<Longrightarrow> subrange (assign_subrange v c d w) a b = subrange v a b"
  by (rule nth_equalityI) (auto simp: subrange_def nth_assign_subrange)

lemma subrange_m_assign_same:
  assumes "length B = r1 - r0" and "r0 \<le> r1" and "r1 \<le> length M" and "c0 \<le> c1"
    and "\<And>i. i < r1 - r0 \<Longrightarrow> length (B ! i) = c1 - c0"
    and "\<And>i. i < r1 - r0 \<Longrightarrow> c1 \<le> length (M ! (r0 + i))"
  shows "subrange_m (assign_subrange_m M r0 r1 c0 c1 B) r0 r1 c0 c1 = B"
proof (rule nth_equalityI)
  show "length (subrange_m (assign_subrange_m M r0 r1 c0 c1 B) r0 r1 c0 c1) = length B"
    using assms(1-3) by (simp add: subrange_m_def)
next
  fix i assume "i < length (subrange_m (assign_subrange_m M r0 r1 c0 c1 B) r0 r1 c0 c1)"
  then have i: "i < r1 - r0" using assms(1-3) by (simp add: subrange_m_def)
  then have i': "r0 + i < r1" "r0 + i < length M" using assms(3) by simp_all
  have "subrange_m (assign_subrange_m M r0 r1 c0 c1 B) r0 r1 c0 c1 ! i =
             subrange (assign_subrange (M ! (r0 + i)) c0 c1 (B ! i)) c0 c1"
    using assms(1-3) i i' by (simp add: subrange_m_def nth_assign_subrange_m)
  also have "\<dots> = B ! i"
    using assms(4) assms(5)[OF i] assms(6)[OF i] by (simp add: subrange_assign_same)
  finally show "subrange_m (assign_subrange_m M r0 r1 c0 c1 B) r0 r1 c0 c1 ! i = B ! i" .
qed

lemma subrange_m_assign_before:
  assumes "c1 \<le> d0"
  shows "subrange_m (assign_subrange_m M r0 r1 d0 d1 B) r0 r1 c0 c1 = subrange_m M r0 r1 c0 c1"
proof (rule nth_equalityI)
  show "length (subrange_m (assign_subrange_m M r0 r1 d0 d1 B) r0 r1 c0 c1) =
        length (subrange_m M r0 r1 c0 c1)"
    by (simp add: subrange_m_def)
next
  fix i assume "i < length (subrange_m (assign_subrange_m M r0 r1 d0 d1 B) r0 r1 c0 c1)"
  then have i: "i < r1 - r0" "r0 + i < length M" "r0 \<le> length M"
    by (auto simp: subrange_m_def)
  then show "subrange_m (assign_subrange_m M r0 r1 d0 d1 B) r0 r1 c0 c1 ! i =
             subrange_m M r0 r1 c0 c1 ! i"
    using assms by (simp add: subrange_m_def nth_assign_subrange_m subrange_assign_before)
qed

lemma identity_mat_3:
  "identity_mat 3 = [[Num 1, Num 0, Num 0], [Num 0, Num 1, Num 0], [Num 0, Num 0, Num 1]]"
  by (simp add: identity_mat_def upt_rec)

lemma length_identity_mat [simp]: "length (identity_mat n) = n"
  by (simp add: identity_mat_def)

lemma map_length_rotate_by_dq [simp]: "map length (quaternion_rotate_by_dq q v) = [4, 4, 4]"
  by (simp add: quaternion_rotate_by_dq_def Let_def)

lemma length_rotate_by_dq [simp]: "length (quaternion_rotate_by_dq q v) = 3"
  by (simp add: quaternion_rotate_by_dq_def Let_def)

lemma map_length_nth: "map length M = ls \<Longrightarrow> i < length ls \<Longrightarrow> length (M ! i) = ls ! i"
  by (metis length_map nth_map)

lemma less_3_cases: "i < (3::nat) \<Longrightarrow> i = 0 \<or> i = 1 \<or> i = 2"
  by arith

lemma minus_zero_dbl [simp]: "x - Num 0 = (x::dbl)"
  by (cases x) simp_all

lemma list_update_3: "length xs = 3 \<Longrightarrow> xs[0 := a, Suc 0 := b, 2 := c] = [a, b, c]"
  by (cases xs; cases "tl xs"; cases "tl (tl xs)") (auto simp: numeral_2_eq_2)

lemma zero_vec_3: "zero_vec 3 = [Num 0, Num 0, Num 0]"
  by (simp add: zero_vec_def numeral_3_eq_3)

lemma nth_zero_vec [simp]: "i < n \<Longrightarrow> zero_vec n ! i = Num 0"
  by (simp add: zero_vec_def)

lemma zero_vec_7: "zero_vec 7 = [Num 0, Num 0, Num 0, Num 0, Num 0, Num 0, Num 0]"
  by (simp add: zero_vec_def eval_nat_numeral)

lemma zero_mat_3_3: "zero_mat 3 3 = [[Num 0, Num 0, Num 0], [Num 0, Num 0, Num 0], [Num 0, Num 0, Num 0]]"
  by (simp add: zero_mat_def zero_vec_def eval_nat_numeral)

lemma map_length_zero_mat_3: "map length (zero_mat 3 n) = [n, n, n]"
  by (simp add: zero_mat_def eval_nat_numeral)

text \<open>
  The matrix of \<open>quaternion_rotate_by_dq\<close> is the Jacobian of \<open>quaternion_rotate\<close> by
  the quaternion: one lemma for each of its four entries.
\<close>

lemma rotate_by_dq_derivative_a:
  "((\<lambda>t. num_of (quaternion_rotate [Num t, Num b, Num c, Num d] [Num x, Num y, Num z] ! i))
      has_real_derivative
    num_of (quaternion_rotate_by_dq [Num a, Num b, Num c, Num d] [Num x, Num y, Num z] ! i ! 0)) (at a)"
  if "i < 3"
proof -
  from that consider "i = 0" | "i = 1" | "i = 2" by arith
  then show ?thesis
    by cases
      (auto simp: quaternion_rotate_def quaternion_rotate_by_dq_def Let_def algebra_simps
        intro!: derivative_eq_intros)
qed

lemma rotate_by_dq_derivative_b:
  "((\<lambda>t. num_of (quaternion_rotate [Num a, Num t, Num c, Num d] [Num x, Num y, Num z] ! i))
      has_real_derivative
    num_of (quaternion_rotate_by_dq [Num a, Num b, Num c, Num d] [Num x, Num y, Num z] ! i ! 1)) (at b)"
  if "i < 3"
proof -
  from that consider "i = 0" | "i = 1" | "i = 2" by arith
  then show ?thesis
    by cases
      (auto simp: quaternion_rotate_def quaternion_rotate_by_dq_def Let_def algebra_simps
        intro!: derivative_eq_intros)
qed

lemma rotate_by_dq_derivative_c:
  "((\<lambda>t. num_of (quaternion_rotate [Num a, Num b, Num t, Num d] [Num x, Num y, Num z] ! i))
      has_real_derivative
    num_of (quaternion_rotate_by_dq [Num a, Num b, Num c, Num d] [Num x, Num y, Num z] ! i ! 2)) (at c)"
  if "i < 3"
proof -
  from that consider "i = 0" | "i = 1" | "i = 2" by arith
  then show ?thesis
    by cases
      (auto simp: quaternion_rotate_def quaternion_rotate_by_dq_def Let_def algebra_simps
        intro!: derivative_eq_intros)
qed

lemma rotate_by_dq_derivative_d:
  "((\<lambda>t. num_of (quaternion_rotate [Num a, Num b, Num c, Num t] [Num x, Num y, Num z] ! i))
      has_real_derivative
    num_of (quaternion_rotate_by_dq [Num a, Num b, Num c, Num d] [Num x, Num y, Num z] ! i ! 3)) (at d)"
  if "i < 3"
proof -
  from that consider "i = 0" | "i = 1" | "i = 2" by arith
  then show ?thesis
    by cases
      (auto simp: quaternion_rotate_def quaternion_rotate_by_dq_def Let_def algebra_simps
        intro!: derivative_eq_intros)
qed

subsection \<open>The two loops of init\<close>

lemma length_update_min_axis [simp]: "length (update_min_axis n r mv i) = length mv"
  by (simp add: update_min_axis_def)

lemma nth_update_min_axis_other: "j \<noteq> i \<Longrightarrow> update_min_axis n r mv i ! j = mv ! j"
  by (simp add: update_min_axis_def)

lemma nth_update_min_axis_same:
  "i < length mv \<Longrightarrow>
     update_min_axis n r mv i ! i = (if r ! (i + 1 + n) < mv ! i then r ! (i + 1 + n) else mv ! i)"
  by (simp add: update_min_axis_def)

lemma length_update_min_var [simp]: "length (update_min_var n r mv) = length mv"
  by (simp add: update_min_var_def)

lemma nth_update_min_var:
  assumes "length mv = 3" and "i < 3"
  shows "update_min_var n r mv ! i = (if r ! (i + 1 + n) < mv ! i then r ! (i + 1 + n) else mv ! i)"
proof -
  from assms(2) consider "i = 0" | "i = 1" | "i = 2" by arith
  then show ?thesis
  proof cases
    case 1
    then show ?thesis
      using assms(1)
      by (simp add: update_min_var_def nth_update_min_axis_other nth_update_min_axis_same)
  next
    case 2
    then show ?thesis
      using assms(1)
      by (simp add: update_min_var_def nth_update_min_axis_other nth_update_min_axis_same)
  next
    case 3
    then show ?thesis
      using assms(1)
      by (simp add: update_min_var_def nth_update_min_axis_other nth_update_min_axis_same)
  qed
qed

lemma find_min_var_snd:
  "snd (find_min_var obs n rid ids (r, mv)) =
     foldl (\<lambda>m it. update_min_var n (obs it) m) mv (window_upto rid ids)"
  by (induction ids arbitrary: r mv) (simp_all add: Let_def)

lemma find_min_var_fst:
  "fst (find_min_var obs n rid ids (r, mv)) =
     (if window_upto rid ids = [] then r else obs (last (window_upto rid ids)))"
  by (induction ids arbitrary: r mv) (simp_all add: Let_def)

lemma accumulate_fst:
  "fst (accumulate obs n rid mv ids (r, acc)) =
     (if window_upto rid ids = [] then r else obs (last (window_upto rid ids)))"
  by (induction ids arbitrary: r acc) (simp_all add: Let_def)

lemma accumulate_snd:
  "snd (accumulate obs n rid mv ids (r, acc)) =
     foldl (\<lambda>a it. accumulate_raw n mv (obs it) a) acc (window_upto rid ids)"
  by (induction ids arbitrary: r acc) (simp_all add: Let_def)

lemma length_fold_min_var [simp]:
  "length (foldl (\<lambda>m it. update_min_var n (obs it) m) mv W) = length mv"
  by (induction W arbitrary: mv) simp_all

lemma fold_min_var_nth:
  assumes "length mv = 3" and "i < 3" and "mv ! i = Num a"
    and "\<forall>it\<in>set W. obs it ! (i + 1 + n) = Num (var it)"
  shows "foldl (\<lambda>m it. update_min_var n (obs it) m) mv W ! i = Num (fold min (map var W) a)"
  using assms
proof (induction W arbitrary: mv a)
  case Nil
  then show ?case by simp
next
  case (Cons it W)
  let ?mv = "update_min_var n (obs it) mv"
  have "?mv ! i = Num (min (var it) a)"
    using Cons.prems by (simp add: nth_update_min_var min_def)
  moreover have "length ?mv = 3" using Cons.prems by simp
  ultimately have "foldl (\<lambda>m it. update_min_var n (obs it) m) ?mv W ! i =
                   Num (fold min (map var W) (min (var it) a))"
    using Cons.prems by (intro Cons.IH) simp_all
  then show ?case by simp
qed

lemma fold_min_Min: "fold min (map var W) (a::real) = Min (insert a (var ` set W))"
  using Min.set_eq_fold[of a "map var W"] by simp

lemma store_calibration_var:
  "3 \<le> n \<Longrightarrow> n + 3 < length r \<Longrightarrow> i < 3 \<Longrightarrow> store_calibration n av mv r ! (i + 1 + n) = mv ! i"
  by (auto dest!: less_3_cases simp: store_calibration_def)

lemma store_calibration_mean:
  "1 \<le> n \<Longrightarrow> n + 3 < length r \<Longrightarrow> i < 3 \<Longrightarrow> store_calibration n av mv r ! (i + 1) = av ! i"
  by (auto dest!: less_3_cases simp: store_calibration_def nth_list_update)

lemma init_reading:
  "reading (init hw rid s) =
     (let available = queryAvailableRaws hw (hardwareSensor s);
          obs = observeRaw hw (hardwareSensor s);
          fm = find_min_var obs (inns s) rid available (reading s, [Num 1000, Num 1000, Num 1000]);
          ac = accumulate obs (inns s) rid (snd fm) available (fst fm, zero_vec 3, zero_vec 3)
      in store_calibration (inns s) (divide_average (fst (snd ac)) (snd (snd ac))) (snd fm) (fst ac))"
  by (simp add: init_def Let_def split: prod.splits)

lemma accumulate_axis_length [simp]:
  "length (fst (accumulate_axis n mv r acc i)) = length (fst acc)"
  "length (snd (accumulate_axis n mv r acc i)) = length (snd acc)"
  by (simp_all add: accumulate_axis_def split: prod.splits)

lemma accumulate_axis_other:
  "j \<noteq> i \<Longrightarrow> fst (accumulate_axis n mv r acc i) ! j = fst acc ! j"
  "j \<noteq> i \<Longrightarrow> snd (accumulate_axis n mv r acc i) ! j = snd acc ! j"
  by (simp_all add: accumulate_axis_def split: prod.splits)

lemma accumulate_axis_skip:
  "\<not> r ! (i + 1 + n) < Num 2 * mv ! i \<Longrightarrow> accumulate_axis n mv r acc i = acc"
  by (simp add: accumulate_axis_def split: prod.splits)

lemma accumulate_raw_length [simp]:
  "length (fst (accumulate_raw n mv r acc)) = length (fst acc)"
  "length (snd (accumulate_raw n mv r acc)) = length (snd acc)"
  by (simp_all add: accumulate_raw_def)

lemma accumulate_raw_skip:
  assumes "i < 3" and "\<not> r ! (i + 1 + n) < Num 2 * mv ! i"
  shows "fst (accumulate_raw n mv r acc) ! i = fst acc ! i \<and>
         snd (accumulate_raw n mv r acc) ! i = snd acc ! i"
proof -
  from assms(1) consider "i = 0" | "i = 1" | "i = 2" by arith
  then show ?thesis
  proof cases
    case 1
    then show ?thesis
      using assms(2) by (simp add: accumulate_raw_def accumulate_axis_other accumulate_axis_skip)
  next
    case 2
    then show ?thesis
      using assms(2) by (simp add: accumulate_raw_def accumulate_axis_other accumulate_axis_skip)
  next
    case 3
    then show ?thesis
      using assms(2) by (simp add: accumulate_raw_def accumulate_axis_other accumulate_axis_skip)
  qed
qed

lemma fold_accumulate_length [simp]:
  "length (fst (foldl (\<lambda>a it. accumulate_raw n mv (obs it) a) acc W)) = length (fst acc)"
  "length (snd (foldl (\<lambda>a it. accumulate_raw n mv (obs it) a) acc W)) = length (snd acc)"
  by (induction W arbitrary: acc) simp_all

lemma fold_accumulate_skip:
  assumes "i < 3" and "\<forall>it\<in>set W. \<not> obs it ! (i + 1 + n) < Num 2 * mv ! i"
  shows "fst (foldl (\<lambda>a it. accumulate_raw n mv (obs it) a) acc W) ! i = fst acc ! i \<and>
         snd (foldl (\<lambda>a it. accumulate_raw n mv (obs it) a) acc W) ! i = snd acc ! i"
  using assms(2)
proof (induction W arbitrary: acc)
  case Nil
  then show ?case by simp
next
  case (Cons it W)
  then show ?case using accumulate_raw_skip[OF assms(1), of "obs it" n mv acc] by simp
qed

lemma divide_average_nth:
  assumes "i < 3" and "length av = 3"
  shows "divide_average av sc ! i = av ! i / sc ! i"
proof -
  from assms(1) consider "i = 0" | "i = 1" | "i = 2" by arith
  then show ?thesis
    using assms(2) by cases (simp_all add: divide_average_def)
qed

lemma dbl_less_Num: "x < Num b \<Longrightarrow> \<exists>a. x = Num a \<and> a < b"
  by (cases x) simp_all

lemma fold_min_var_Num:
  assumes "length mv = 3" and "i < 3" and "mv ! i = Num a"
  shows "\<exists>b. foldl (\<lambda>m it. update_min_var n (obs it) m) mv W ! i = Num b \<and> b \<le> a"
  using assms
proof (induction W arbitrary: mv a)
  case Nil
  then show ?case by simp
next
  case (Cons it W)
  let ?mv = "update_min_var n (obs it) mv"
  have "\<exists>a'. ?mv ! i = Num a' \<and> a' \<le> a"
    using Cons.prems dbl_less_Num[of "obs it ! (i + 1 + n)" a]
    by (auto simp: nth_update_min_var)
  then obtain a' where a': "?mv ! i = Num a'" "a' \<le> a" by blast
  have "length ?mv = 3" using Cons.prems by simp
  from Cons.IH[OF this Cons.prems(2) a'(1)] a'(2) show ?case
    by auto
qed

lemma fold_min_var_lower:
  assumes "length mv = 3" and "i < 3" and "mv ! i = Num a"
    and "it \<in> set W" and "obs it ! (i + 1 + n) = Num v"
    and "foldl (\<lambda>m it. update_min_var n (obs it) m) mv W ! i = Num b"
  shows "b \<le> v"
  using assms
proof (induction W arbitrary: mv a)
  case Nil
  then show ?case by simp
next
  case (Cons x W)
  let ?mv = "update_min_var n (obs x) mv"
  have len: "length ?mv = 3" using Cons.prems by simp
  have "\<exists>a'. ?mv ! i = Num a' \<and> (x = it \<longrightarrow> a' \<le> v)"
    using Cons.prems(1,2,3,5) dbl_less_Num[of "obs x ! (i + 1 + n)" a]
    by (auto simp: nth_update_min_var)
  then obtain a' where a': "?mv ! i = Num a'" "x = it \<longrightarrow> a' \<le> v" by blast
  have b: "foldl (\<lambda>m it. update_min_var n (obs it) m) ?mv W ! i = Num b"
    using Cons.prems(6) by simp
  show ?case
  proof (cases "x = it")
    case True
    from fold_min_var_Num[OF len Cons.prems(2) a'(1), of n obs W] b a'(2) True
    show ?thesis by auto
  next
    case False
    then have "it \<in> set W" using Cons.prems(4) by simp
    from Cons.IH[OF len Cons.prems(2) a'(1) this Cons.prems(5) b] show ?thesis .
  qed
qed

lemma accumulate_raw_nth:
  assumes "i < 3" and "length (fst acc) = 3" and "length (snd acc) = 3"
  shows "fst (accumulate_raw n mv r acc) ! i =
           (if r ! (i + 1 + n) < Num 2 * mv ! i
            then fst acc ! i + r ! (i + 1) * r ! (i + 1 + n) else fst acc ! i) \<and>
         snd (accumulate_raw n mv r acc) ! i =
           (if r ! (i + 1 + n) < Num 2 * mv ! i
            then snd acc ! i + r ! (i + 1 + n) else snd acc ! i)"
proof (cases "r ! (i + 1 + n) < Num 2 * mv ! i")
  case False
  then show ?thesis using accumulate_raw_skip[OF assms(1) False, of acc] by simp
next
  case True
  have one: "fst (accumulate_axis n mv r a i) ! i = fst a ! i + r ! (i + 1) * r ! (i + 1 + n) \<and>
             snd (accumulate_axis n mv r a i) ! i = snd a ! i + r ! (i + 1 + n)"
    if "length (fst a) = 3" "length (snd a) = 3" for a
    using True that assms(1) by (auto simp: accumulate_axis_def split: prod.splits)
  from assms(1) consider "i = 0" | "i = 1" | "i = 2" by arith
  then show ?thesis
  proof cases
    case 1
    then show ?thesis
      using True one[of acc] assms(2,3) by (simp add: accumulate_raw_def accumulate_axis_other)
  next
    case 2
    then show ?thesis
      using True one[of "accumulate_axis n mv r acc 0"] assms(2,3)
      by (simp add: accumulate_raw_def accumulate_axis_other)
  next
    case 3
    then show ?thesis
      using True one[of "accumulate_axis n mv r (accumulate_axis n mv r acc 0) 1"] assms(2,3)
      by (simp add: accumulate_raw_def accumulate_axis_other)
  qed
qed

lemma fold_accumulate_zero_sum:
  assumes i: "i < 3" and m: "mv ! i = Num m"
    and low: "\<And>it v. it \<in> set W \<Longrightarrow> obs it ! (i + 1 + n) = Num v \<Longrightarrow> m \<le> v"
    and len: "length (fst acc) = 3" "length (snd acc) = 3"
    and inv: "\<exists>c. snd acc ! i = Num c \<and> 0 \<le> c \<and> (c = 0 \<longrightarrow> fst acc ! i = Num 0)"
  shows "\<exists>c. snd (foldl (\<lambda>a it. accumulate_raw n mv (obs it) a) acc W) ! i = Num c \<and> 0 \<le> c \<and>
             (c = 0 \<longrightarrow> fst (foldl (\<lambda>a it. accumulate_raw n mv (obs it) a) acc W) ! i = Num 0)"
  using low len inv
proof (induction W arbitrary: acc)
  case Nil
  then show ?case by simp
next
  case (Cons it W)
  let ?acc = "accumulate_raw n mv (obs it) acc"
  from Cons.prems(4) obtain c where c: "snd acc ! i = Num c" "0 \<le> c" "c = 0 \<longrightarrow> fst acc ! i = Num 0"
    by blast
  have step: "\<exists>c'. snd ?acc ! i = Num c' \<and> 0 \<le> c' \<and> (c' = 0 \<longrightarrow> fst ?acc ! i = Num 0)"
  proof (cases "obs it ! (i + 1 + n) < Num 2 * mv ! i")
    case False
    then show ?thesis
      using accumulate_raw_skip[OF i False, of acc] c by simp
  next
    case True
    then obtain v where v: "obs it ! (i + 1 + n) = Num v" "v < 2 * m"
      using dbl_less_Num[of "obs it ! (i + 1 + n)" "2 * m"] by (auto simp: m)
    have "m \<le> v" using Cons.prems(1)[of it v] v(1) by simp
    then have "0 < v" using v(2) by simp
    moreover have "snd ?acc ! i = Num (c + v)"
      using accumulate_raw_nth[OF i Cons.prems(2,3), of n mv "obs it"] True c(1) v(1) by simp
    ultimately show ?thesis using c(2) by auto
  qed
  have low': "m \<le> v" if "x \<in> set W" "obs x ! (i + 1 + n) = Num v" for x v
    using Cons.prems(1)[of x v] that by simp
  from Cons.IH[OF low' _ _ step] Cons.prems(2,3) show ?case by simp
qed

lemma accumulate_zero_sum:
  assumes i: "i < 3"
    and mv: "min_var = snd (find_min_var obs n rid ids (r0, [Num 1000, Num 1000, Num 1000]))"
    and ac: "(r2, average, sum_coeffs) = accumulate obs n rid min_var ids (r1, zero_vec 3, zero_vec 3)"
  shows "\<exists>c. sum_coeffs ! i = Num c \<and> 0 \<le> c \<and> (c = 0 \<longrightarrow> average ! i = Num 0)"
proof -
  let ?W = "window_upto rid ids"
  have start: "[Num 1000, Num 1000, Num 1000] ! i = Num 1000"
    using less_3_cases[OF i] by auto
  have mvf: "min_var = foldl (\<lambda>m it. update_min_var n (obs it) m) [Num 1000, Num 1000, Num 1000] ?W"
    by (simp add: mv find_min_var_snd)
  obtain m where m: "min_var ! i = Num m"
    using fold_min_var_Num[OF _ i start, of n obs ?W] by (auto simp: mvf)
  have low: "m \<le> v" if "it \<in> set ?W" "obs it ! (i + 1 + n) = Num v" for it v
  proof -
    have "foldl (\<lambda>m it. update_min_var n (obs it) m) [Num 1000, Num 1000, Num 1000] ?W ! i = Num m"
      using m by (simp add: mvf)
    from fold_min_var_lower[OF _ i start that this] show ?thesis by simp
  qed
  have "(average, sum_coeffs) = foldl (\<lambda>a it. accumulate_raw n min_var (obs it) a) (zero_vec 3, zero_vec 3) ?W"
    using arg_cong[OF ac, of snd] by (simp add: accumulate_snd)
  then have av: "average = fst (foldl (\<lambda>a it. accumulate_raw n min_var (obs it) a) (zero_vec 3, zero_vec 3) ?W)"
    and sc: "sum_coeffs = snd (foldl (\<lambda>a it. accumulate_raw n min_var (obs it) a) (zero_vec 3, zero_vec 3) ?W)"
    by (metis fst_conv, metis snd_conv)
  show ?thesis
    unfolding av sc
    by (rule fold_accumulate_zero_sum[OF i m low]) (use i in simp_all)
qed

subsection \<open>The steps of process\<close>

lemma acquire_fields [simp]:
  "ia_rs (acquire hw rid s) = ia_rs s"
  "innovation (acquire hw rid s) = innovation s"
  "measurement (acquire hw rid s) = measurement s"
  "expectation (acquire hw rid s) = expectation s"
  "EXP_rs (acquire hw rid s) = EXP_rs s"
  "INN_rs (acquire hw rid s) = INN_rs s"
  "EXP_q (acquire hw rid s) = EXP_q s"
  "hasVar (acquire hw rid s) = hasVar s"
  "inns (acquire hw rid s) = inns s"
  "absolute (acquire hw rid s) = absolute s"
  "use_for_init (acquire hw rid s) = use_for_init s"
  "pose_x (acquire hw rid s) = pose_x s"
  "origin (acquire hw rid s) = origin s"
  "robot_pose (acquire hw rid s) = robot_pose s"
  "filter_P (acquire hw rid s) = filter_P s"
  "ia_used_states (acquire hw rid s) = ia_used_states s"
  by (simp_all add: acquire_def init_def Let_def split: prod.splits)

lemmas step_defs = set_jacobian_def set_expectation_def set_measurement_x_def
  set_measurement_P_def set_innovation_def

lemma process_eq:
  "process hw correct rid s =
     (if inns s \<noteq> 3
      then (Some (ReadingSizeNotSupported (length (reading (acquire hw rid s)))), prepared hw rid s)
      else if \<not> hasVar s
      then (Some ConstantUncertaintyNotImplemented, modelled hw rid s)
      else (None, release hw rid
             (if origin s = []
              then bootstrap (quaternion_rotate (subrange (g_x (robot_pose s)) 3 7) (subrange (pose_x s) 0 3))
                     (set_innovation (set_measurement_P (modelled hw rid s)))
              else dispatch correct (set_innovation (set_measurement_P (modelled hw rid s))))))"
  by (simp add: process_def measurement_model_def model_pos_def Let_def prepared_def modelled_def
      step_defs)

lemma prepared_fields [simp]:
  "inns (prepared hw rid s) = inns s"
  "hasVar (prepared hw rid s) = hasVar s"
  "absolute (prepared hw rid s) = absolute s"
  "use_for_init (prepared hw rid s) = use_for_init s"
  "measurement (prepared hw rid s) = measurement s"
  "robot_pose (prepared hw rid s) = robot_pose s"
  "filter_P (prepared hw rid s) = filter_P s"
  "EXP_rs (prepared hw rid s) = EXP_rs s"
  "ia_rs (prepared hw rid s) = ia_rs s"
  "reading (prepared hw rid s) = reading (acquire hw rid s)"
  "origin (prepared hw rid s) = (if origin s = [] then zero_vec 3 else origin s)"
  by (simp_all add: prepared_def)

lemma modelled_fields [simp]:
  "inns (modelled hw rid s) = inns s"
  "hasVar (modelled hw rid s) = hasVar s"
  "absolute (modelled hw rid s) = absolute s"
  "use_for_init (modelled hw rid s) = use_for_init s"
  "robot_pose (modelled hw rid s) = robot_pose s"
  "filter_P (modelled hw rid s) = filter_P s"
  "ia_rs (modelled hw rid s) = ia_rs s"
  "reading (modelled hw rid s) = reading (acquire hw rid s)"
  "origin (modelled hw rid s) = (if origin s = [] then zero_vec 3 else origin s)"
  by (simp_all add: modelled_def step_defs)

lemma modelled_jacobian:
  "EXP_q (modelled hw rid s) = quaternion_rotate_by_dq (subrange (g_x (robot_pose s)) 3 7) (subrange (pose_x s) 0 3)"
  "EXP_rs (modelled hw rid s) =
     assign_subrange_m (assign_subrange_m (EXP_rs s) 0 3 0 3 (identity_mat 3)) 0 3 3 7
       (quaternion_rotate_by_dq (subrange (g_x (robot_pose s)) 3 7) (subrange (pose_x s) 0 3))"
  by (simp_all add: modelled_def step_defs)

lemma modelled_expectation:
  "expectation (modelled hw rid s) =
     \<lparr>g_x = vec_add (subrange (g_x (robot_pose s)) 0 3)
              (quaternion_rotate (subrange (g_x (robot_pose s)) 3 7) (subrange (pose_x s) 0 3)),
      g_P = prod_JPJt (project (filter_P s) (ia_rs s) (ia_rs s)) (EXP_rs (modelled hw rid s))\<rparr>"
  by (simp add: modelled_def step_defs)

lemma modelled_measurement:
  "g_x (measurement (modelled hw rid s)) =
     (g_x (measurement s))
        [0 := reading (acquire hw rid s) ! 2 - origin (prepared hw rid s) ! 0,
         1 := reading (acquire hw rid s) ! 1 - origin (prepared hw rid s) ! 1,
         2 := reading (acquire hw rid s) ! 3 - origin (prepared hw rid s) ! 2]"
  "g_P (measurement (modelled hw rid s)) = g_P (measurement s)"
  by (simp_all add: modelled_def step_defs)

lemma set_measurement_P_fields [simp]:
  "inns (set_measurement_P s) = inns s"
  "hasVar (set_measurement_P s) = hasVar s"
  "absolute (set_measurement_P s) = absolute s"
  "use_for_init (set_measurement_P s) = use_for_init s"
  "robot_pose (set_measurement_P s) = robot_pose s"
  "filter_P (set_measurement_P s) = filter_P s"
  "ia_rs (set_measurement_P s) = ia_rs s"
  "ia_used_states (set_measurement_P s) = ia_used_states s"
  "reading (set_measurement_P s) = reading s"
  "origin (set_measurement_P s) = origin s"
  "EXP_rs (set_measurement_P s) = EXP_rs s"
  "EXP_q (set_measurement_P s) = EXP_q s"
  "expectation (set_measurement_P s) = expectation s"
  "g_x (measurement (set_measurement_P s)) = g_x (measurement s)"
  by (simp_all add: set_measurement_P_def Let_def)

lemma set_innovation_fields [simp]:
  "inns (set_innovation s) = inns s"
  "hasVar (set_innovation s) = hasVar s"
  "absolute (set_innovation s) = absolute s"
  "use_for_init (set_innovation s) = use_for_init s"
  "robot_pose (set_innovation s) = robot_pose s"
  "filter_P (set_innovation s) = filter_P s"
  "ia_rs (set_innovation s) = ia_rs s"
  "ia_used_states (set_innovation s) = ia_used_states s"
  "reading (set_innovation s) = reading s"
  "origin (set_innovation s) = origin s"
  "EXP_rs (set_innovation s) = EXP_rs s"
  "EXP_q (set_innovation s) = EXP_q s"
  "expectation (set_innovation s) = expectation s"
  "measurement (set_innovation s) = measurement s"
  "INN_rs (set_innovation s) = mat_neg (EXP_rs s)"
  by (simp_all add: set_innovation_def)

lemma release_fields [simp]:
  "inns (release hw rid s) = inns s"
  "hasVar (release hw rid s) = hasVar s"
  "absolute (release hw rid s) = absolute s"
  "robot_pose (release hw rid s) = robot_pose s"
  "filter_P (release hw rid s) = filter_P s"
  "ia_rs (release hw rid s) = ia_rs s"
  "origin (release hw rid s) = origin s"
  "EXP_rs (release hw rid s) = EXP_rs s"
  "INN_rs (release hw rid s) = INN_rs s"
  "EXP_q (release hw rid s) = EXP_q s"
  "expectation (release hw rid s) = expectation s"
  "measurement (release hw rid s) = measurement s"
  "innovation (release hw rid s) = innovation s"
  by (simp_all add: release_def split: prod.splits)

lemma dispatch_fields [simp]:
  "inns (dispatch correct s) = inns s"
  "hasVar (dispatch correct s) = hasVar s"
  "absolute (dispatch correct s) = absolute s"
  "use_for_init (dispatch correct s) = use_for_init s"
  "ia_rs (dispatch correct s) = ia_rs s"
  "origin (dispatch correct s) = origin s"
  "EXP_rs (dispatch correct s) = EXP_rs s"
  "INN_rs (dispatch correct s) = INN_rs s"
  "EXP_q (dispatch correct s) = EXP_q s"
  "expectation (dispatch correct s) = expectation s"
  "measurement (dispatch correct s) = measurement s"
  "innovation (dispatch correct s) = innovation s"
  by (simp_all add: dispatch_def split: prod.splits)

lemma bootstrap_fields [simp]:
  "inns (bootstrap Tr s) = inns s"
  "hasVar (bootstrap Tr s) = hasVar s"
  "absolute (bootstrap Tr s) = absolute s"
  "use_for_init (bootstrap Tr s) = use_for_init s"
  "filter_P (bootstrap Tr s) = filter_P s"
  "ia_rs (bootstrap Tr s) = ia_rs s"
  "EXP_rs (bootstrap Tr s) = EXP_rs s"
  "INN_rs (bootstrap Tr s) = INN_rs s"
  "EXP_q (bootstrap Tr s) = EXP_q s"
  "expectation (bootstrap Tr s) = expectation s"
  "measurement (bootstrap Tr s) = measurement s"
  "innovation (bootstrap Tr s) = innovation s"
  by (simp_all add: bootstrap_def Let_def)

lemma bootstrap_origin:
  "inns s = 3 \<Longrightarrow> origin (bootstrap Tr s) =
     (if absolute s then zero_vec 3 else vec_sub (g_x (measurement s)) Tr)"
  by (simp add: bootstrap_def Let_def)

lemma bootstrap_pose:
  "inns s = 3 \<Longrightarrow> g_x (robot_pose (bootstrap Tr s)) =
     assign_subrange (g_x (robot_pose s)) 0 3
       (if absolute s then vec_sub (g_x (measurement s)) Tr else zero_vec 3)"
  "inns s = 3 \<Longrightarrow> g_P (robot_pose (bootstrap Tr s)) =
     assign_subrange_m (g_P (robot_pose s)) 0 3 0 3
       (mat_add (g_P (measurement s)) (prod_JPJt (subrange_m (g_P (robot_pose s)) 3 7 3 7) (EXP_q s)))"
  by (simp_all add: bootstrap_def Let_def)

lemma process_inns [simp]: "inns (snd (process hw correct rid s)) = inns s"
  by (simp add: process_eq)

lemma process_measurement_length [simp]:
  "length (g_x (measurement (snd (process hw correct rid s)))) = length (g_x (measurement s))"
  by (simp add: process_eq modelled_measurement)

lemma process_origin_set: "origin s \<noteq> [] \<Longrightarrow> origin (snd (process hw correct rid s)) = origin s"
  by (simp add: process_eq)

lemma process_origin_unset:
  "origin s = [] \<Longrightarrow> length (g_x (measurement s)) = inns s \<Longrightarrow>
     length (origin (snd (process hw correct rid s))) = 3"
  by (simp add: process_eq bootstrap_origin modelled_measurement)

lemma run_origin_set: "origin s \<noteq> [] \<Longrightarrow> origin (run hw correct rids s) = origin s"
  by (induction rids arbitrary: s) (simp_all add: process_origin_set)

lemma measurement_model_eq:
  "inns s = 3 \<Longrightarrow> hasVar s \<Longrightarrow>
     measurement_model (subrange (pose_x s) 0 3) (subrange (g_x (robot_pose s)) 0 3)
       (subrange (g_x (robot_pose s)) 3 7)
       (quaternion_rotate (subrange (g_x (robot_pose s)) 3 7) (subrange (pose_x s) 0 3)) (prepared hw rid s) =
     (None, set_innovation (set_measurement_P (modelled hw rid s)))"
  by (simp add: measurement_model_def model_pos_def modelled_def step_defs Let_def)

lemma process_EXP_rs:
  "inns s = 3 \<Longrightarrow> EXP_rs (snd (process hw correct rid s)) = EXP_rs (modelled hw rid s)"
  by (simp add: process_eq)

lemma process_expectation:
  "inns s = 3 \<Longrightarrow> expectation (snd (process hw correct rid s)) = expectation (modelled hw rid s)"
  by (simp add: process_eq)

lemma set_measurement_P_cov:
  "g_P (measurement s) = [[a0, a1, a2], [b0, b1, b2], [c0, c1, c2]] \<Longrightarrow>
   g_P (measurement (set_measurement_P s)) =
     [[sqr (reading s ! (2 + inns s)), a1, a2],
      [b0, sqr (reading s ! (1 + inns s)), b2],
      [c0, c1, sqr (reading s ! (3 + inns s))]]"
  by (simp add: set_measurement_P_def Let_def)

lemma example_acquire: "reading (acquire example_hw 0 example_state) = example_raw"
  by (simp add: acquire_def example_hw_def example_state_def)

lemma lever_acquire: "reading (acquire example_hw 0 lever_state) = example_raw"
  by (simp add: acquire_def example_hw_def example_state_def lever_state_def)

subsection \<open>The first reading of a relative sensor\<close>

text \<open>
  Claim C1, as the code has it. On a first reading with \<^verbatim>\<open>absolute = false\<close> (three
  channels, variances reported) the call throws nothing, the mean of the measurement is
  the raw reading, channels 2, 1 and 3, the origin is this mean less the rotated lever
  arm, and the position of the robot is the zero vector.
\<close>

theorem bootstrap_relative:
  assumes "origin s = []" and "\<not> absolute s" and "inns s = 3" and "hasVar s"
    and "length (g_x (measurement s)) = 3" and "length (g_x (robot_pose s)) = 7"
    and r: "r = reading (acquire hw rid s)"
    and T: "T = subrange (pose_x s) 0 3"
    and q: "q = subrange (g_x (robot_pose s)) 3 7"
    and s': "s' = snd (process hw correct rid s)"
  shows "fst (process hw correct rid s) = None \<and>
         g_x (measurement s') = [r ! 2, r ! 1, r ! 3] \<and>
         origin s' = vec_sub (g_x (measurement s')) (quaternion_rotate q T) \<and>
         subrange (g_x (robot_pose s')) 0 3 = zero_vec 3"
proof -
  have m: "g_x (measurement s') = [r ! 2, r ! 1, r ! 3]"
    using assms(1-5) by (simp add: s' r process_eq modelled_measurement list_update_3)
  have o: "origin s' = vec_sub (g_x (measurement s')) (quaternion_rotate q T)"
    using assms(1-4) by (simp add: s' process_eq bootstrap_origin q T)
  have "g_x (robot_pose s') = assign_subrange (g_x (robot_pose s)) 0 3 (zero_vec 3)"
    using assms(1-4) by (simp add: s' process_eq bootstrap_pose)
  then have p: "subrange (g_x (robot_pose s')) 0 3 = zero_vec 3"
    using assms(6) by (simp add: subrange_assign_same)
  have "fst (process hw correct rid s) = None"
    using assms(1-4) by (simp add: process_eq)
  then show ?thesis using m o p by simp
qed

text \<open>
  The scenario of claim C1: the reading \<open>(5, 5, 5)\<close>, no lever arm and the identity
  quaternion give the origin \<open>(5, 5, 5)\<close> and the position \<open>(0, 0, 0)\<close>.
\<close>

theorem bootstrap_relative_witness:
  "fst (process example_hw example_correct 0 example_state) = None \<and>
   g_x (measurement (snd (process example_hw example_correct 0 example_state))) = [Num 5, Num 5, Num 5] \<and>
   origin (snd (process example_hw example_correct 0 example_state)) = [Num 5, Num 5, Num 5] \<and>
   subrange (g_x (robot_pose (snd (process example_hw example_correct 0 example_state)))) 0 3 =
     [Num 0, Num 0, Num 0]"
proof -
  have h: "origin example_state = []" "\<not> absolute example_state" "inns example_state = 3"
    "hasVar example_state" "length (g_x (measurement example_state)) = 3"
    "length (g_x (robot_pose example_state)) = 7"
    by (simp_all add: example_state_def)
  have T: "quaternion_rotate (subrange (g_x (robot_pose example_state)) 3 7)
             (subrange (pose_x example_state) 0 3) = [Num 0, Num 0, Num 0]"
    by (simp add: example_state_def subrange_def quaternion_rotate_def Let_def zero_vec_def
        eval_nat_numeral)
  show ?thesis
    using bootstrap_relative[where hw = example_hw and rid = 0 and correct = example_correct,
        OF h refl refl refl refl]
    by (simp add: T example_acquire example_raw_def vec_sub_def zero_vec_3)
qed

text \<open>
  Claim C1 as stated fails when the lever arm is not zero: with the sensor one unit
  ahead of the robot the measurement is \<open>(5, 5, 5)\<close> and the origin \<open>(4, 5, 5)\<close>.
\<close>

theorem origin_not_measurement_counterexample:
  "g_x (measurement (snd (process example_hw example_correct 0 lever_state))) = [Num 5, Num 5, Num 5] \<and>
   origin (snd (process example_hw example_correct 0 lever_state)) = [Num 4, Num 5, Num 5] \<and>
   origin (snd (process example_hw example_correct 0 lever_state)) \<noteq>
     g_x (measurement (snd (process example_hw example_correct 0 lever_state)))"
proof -
  have c: "origin lever_state = []" "inns lever_state = 3" "hasVar lever_state" "\<not> absolute lever_state"
    "g_x (measurement lever_state) = [Num 0, Num 0, Num 0]"
    "pose_x lever_state = [Num 1, Num 0, Num 0, Num 1, Num 0, Num 0, Num 0]"
    "g_x (robot_pose lever_state) = [Num 0, Num 0, Num 0, Num 1, Num 0, Num 0, Num 0]"
    by (simp_all add: lever_state_def example_state_def zero_vec_3)
  have m: "g_x (measurement (snd (process example_hw example_correct 0 lever_state))) = [Num 5, Num 5, Num 5]"
    by (simp add: process_eq modelled_measurement c lever_acquire example_raw_def)
  have o: "origin (snd (process example_hw example_correct 0 lever_state)) = [Num 4, Num 5, Num 5]"
    by (simp add: process_eq bootstrap_origin modelled_measurement c lever_acquire example_raw_def
        subrange_def quaternion_rotate_def vec_sub_def Let_def)
  show ?thesis by (simp add: m o)
qed

subsection \<open>Unsupported dimensions\<close>

text \<open>
  Claim C2, as the code has it. With a number of channels other than three the call
  throws the error that names the size of the reading and leaves the pose of the robot
  (mean and covariance) as it was. An origin that was set is kept; an unset origin has
  been sized and cleared before the throw, so it is left as the zero vector.
\<close>

theorem unsupported_dimension:
  assumes "inns s \<noteq> 3"
  shows "fst (process hw correct rid s) =
           Some (ReadingSizeNotSupported (length (reading (acquire hw rid s)))) \<and>
         robot_pose (snd (process hw correct rid s)) = robot_pose s \<and>
         origin (snd (process hw correct rid s)) = (if origin s = [] then zero_vec 3 else origin s)"
  using assms by (simp add: process_eq)

text \<open>The seven-channel sensor: the error, the pose kept, the origin cleared.\<close>

theorem unsupported_dimension_witness:
  "fst (process pose_hw example_correct 0 pose_state) = Some (ReadingSizeNotSupported 15) \<and>
   robot_pose (snd (process pose_hw example_correct 0 pose_state)) = robot_pose pose_state \<and>
   origin (snd (process pose_hw example_correct 0 pose_state)) = zero_vec 3"
proof -
  have h: "inns pose_state \<noteq> 3"
    by (simp add: pose_state_def)
  have r: "reading (acquire pose_hw 0 pose_state) = pose_raw"
    by (simp add: acquire_def pose_hw_def pose_state_def example_state_def)
  have o: "origin pose_state = []"
    by (simp add: pose_state_def example_state_def)
  show ?thesis
    using unsupported_dimension[OF h, of pose_hw example_correct 0]
    by (simp add: r o pose_raw_def)
qed

text \<open>
  Claim C2 as stated fails on a first reading: the call of the seven-channel sensor
  throws and the origin, unset before, is \<open>(0, 0, 0)\<close> after.
\<close>

theorem unsupported_dimension_counterexample:
  "origin pose_state = [] \<and>
   fst (process pose_hw example_correct 0 pose_state) = Some (ReadingSizeNotSupported 15) \<and>
   origin (snd (process pose_hw example_correct 0 pose_state)) = [Num 0, Num 0, Num 0] \<and>
   origin (snd (process pose_hw example_correct 0 pose_state)) \<noteq> origin pose_state"
proof -
  have h: "inns pose_state \<noteq> 3" "origin pose_state = []"
    by (simp_all add: pose_state_def example_state_def)
  have r: "reading (acquire pose_hw 0 pose_state) = pose_raw"
    by (simp add: acquire_def pose_hw_def pose_state_def example_state_def)
  show ?thesis
    by (simp add: process_eq h r pose_raw_def zero_vec_3)
qed

subsection \<open>The origin is set once\<close>

text \<open>
  Claim C3. A call on an unset origin leaves an origin of three entries; a call on a set
  origin keeps it; and whatever calls follow the first one, the origin stays the one
  the first call left.
\<close>

theorem origin_set_once:
  assumes "length (g_x (measurement s)) = inns s"
  shows "(origin s = [] \<longrightarrow> length (origin (snd (process hw correct rid s))) = 3) \<and>
         (origin s \<noteq> [] \<longrightarrow> origin (snd (process hw correct rid s)) = origin s) \<and>
         origin (run hw correct (rid # rids) s) = origin (snd (process hw correct rid s))"
proof -
  let ?s1 = "snd (process hw correct rid s)"
  have unset: "origin s = [] \<Longrightarrow> length (origin ?s1) = 3"
    using assms by (rule process_origin_unset[rotated])
  have kept: "origin s \<noteq> [] \<Longrightarrow> origin ?s1 = origin s"
    by (rule process_origin_set)
  have "origin ?s1 \<noteq> []"
  proof (cases "origin s = []")
    case True
    then have "length (origin ?s1) = 3" by (rule unset)
    then show ?thesis by auto
  next
    case False
    then show ?thesis by (simp add: kept)
  qed
  then have "origin (run hw correct rids ?s1) = origin ?s1"
    by (rule run_origin_set)
  then show ?thesis using unset kept by simp
qed

text \<open>Three calls on the example sensor.\<close>

theorem origin_set_once_witness:
  "length (origin (snd (process example_hw example_correct 0 example_state))) = 3 \<and>
   origin (run example_hw example_correct [0, 1, 2] example_state) =
     origin (snd (process example_hw example_correct 0 example_state))"
proof -
  have h: "length (g_x (measurement example_state)) = inns example_state"
    by (simp add: example_state_def)
  have o: "origin example_state = []"
    by (simp add: example_state_def)
  show ?thesis
    using origin_set_once[OF h, of example_hw example_correct 0 "[1, 2]"] o by simp
qed

subsection \<open>The measurement model\<close>

text \<open>
  Claim C4. With three channels and a Jacobian of three rows and seven columns, the call
  leaves the mean of the expectation \<open>p + rotate(q, T)\<close>, the identity as the block
  of the Jacobian by \<open>p\<close>, the Jacobian of the rotation as its block by \<open>q\<close>, and
  \<open>J \<cdot> P \<cdot> J\<^sup>t\<close> as the covariance of the expectation, \<open>P\<close> the covariance of the filter
  at \<^verbatim>\<open>ia_rs\<close>.
\<close>

theorem expectation_model:
  assumes n: "inns s = 3" and dims: "map length (EXP_rs s) = [7, 7, 7]"
    and T: "T = subrange (pose_x s) 0 3"
    and p: "p = subrange (g_x (robot_pose s)) 0 3"
    and q: "q = subrange (g_x (robot_pose s)) 3 7"
    and s': "s' = snd (process hw correct rid s)"
  shows "g_x (expectation s') = vec_add p (quaternion_rotate q T) \<and>
         subrange_m (EXP_rs s') 0 3 0 3 = identity_mat 3 \<and>
         subrange_m (EXP_rs s') 0 3 3 7 = quaternion_rotate_by_dq q T \<and>
         g_P (expectation s') = prod_JPJt (project (filter_P s) (ia_rs s) (ia_rs s)) (EXP_rs s')"
proof -
  let ?M1 = "assign_subrange_m (EXP_rs s) 0 3 0 3 (identity_mat 3)"
  have len: "length (EXP_rs s) = 3"
    using dims by (metis length_map length_Cons list.size(3) numeral_3_eq_3)
  have rows: "\<And>i. i < 3 \<Longrightarrow> length (EXP_rs s ! i) = 7"
    using map_length_nth[OF dims] by (auto dest: less_3_cases)
  have rows1: "\<And>i. i < 3 \<Longrightarrow> length (?M1 ! i) = 7"
    using map_length_nth[of ?M1 "[7, 7, 7]"] dims by (auto dest: less_3_cases)
  have E: "EXP_rs s' = assign_subrange_m ?M1 0 3 3 7 (quaternion_rotate_by_dq q T)"
    using n by (simp add: s' process_EXP_rs modelled_jacobian q T)
  have rowsI: "\<And>i. i < 3 \<Longrightarrow> length (identity_mat 3 ! i) = 3"
    by (auto dest: less_3_cases simp: identity_mat_3)
  have rowsJ: "\<And>i. i < 3 \<Longrightarrow> length (quaternion_rotate_by_dq q T ! i) = 4"
    using map_length_nth[of "quaternion_rotate_by_dq q T" "[4, 4, 4]"] by (auto dest: less_3_cases)
  have "subrange_m (EXP_rs s') 0 3 0 3 = subrange_m ?M1 0 3 0 3"
    by (simp add: E subrange_m_assign_before)
  also have "\<dots> = identity_mat 3"
    by (rule subrange_m_assign_same) (simp_all add: len rows rowsI)
  finally have a: "subrange_m (EXP_rs s') 0 3 0 3 = identity_mat 3" .
  have b: "subrange_m (EXP_rs s') 0 3 3 7 = quaternion_rotate_by_dq q T"
    unfolding E by (rule subrange_m_assign_same) (simp_all add: len rows1 rowsJ)
  have c: "expectation s' =
      \<lparr>g_x = vec_add p (quaternion_rotate q T),
       g_P = prod_JPJt (project (filter_P s) (ia_rs s) (ia_rs s)) (EXP_rs s')\<rparr>"
    using n by (simp add: s' process_expectation modelled_expectation process_EXP_rs p q T)
  show ?thesis using a b c by simp
qed

text \<open>The example sensor: no lever arm, so the block by \<open>q\<close> is zero.\<close>

theorem expectation_model_witness:
  "g_x (expectation (snd (process example_hw example_correct 0 example_state))) = [Num 0, Num 0, Num 0] \<and>
   subrange_m (EXP_rs (snd (process example_hw example_correct 0 example_state))) 0 3 0 3 =
     identity_mat 3 \<and>
   subrange_m (EXP_rs (snd (process example_hw example_correct 0 example_state))) 0 3 3 7 =
     zero_mat 3 4"
proof -
  have h: "inns example_state = 3" "map length (EXP_rs example_state) = [7, 7, 7]"
    by (simp_all add: example_state_def map_length_zero_mat_3)
  have v: "subrange (pose_x example_state) 0 3 = [Num 0, Num 0, Num 0]"
    "subrange (g_x (robot_pose example_state)) 0 3 = [Num 0, Num 0, Num 0]"
    "subrange (g_x (robot_pose example_state)) 3 7 = [Num 1, Num 0, Num 0, Num 0]"
    by (simp_all add: example_state_def subrange_def zero_vec_7)
  have r: "quaternion_rotate [Num 1, Num 0, Num 0, Num 0] [Num 0, Num 0, Num 0] = [Num 0, Num 0, Num 0]"
    by (simp add: quaternion_rotate_def Let_def)
  have j: "quaternion_rotate_by_dq [Num 1, Num 0, Num 0, Num 0] [Num 0, Num 0, Num 0] = zero_mat 3 4"
    by (simp add: quaternion_rotate_by_dq_def Let_def zero_mat_def zero_vec_def eval_nat_numeral)
  show ?thesis
    using expectation_model[OF h refl refl refl refl, where hw = example_hw and rid = 0
        and correct = example_correct]
    by (simp add: v r j vec_add_def)
qed

subsection \<open>A calibration window\<close>

text \<open>
  Claim C5. On the window of three raws the first loop finds the minimal variance \<open>1\<close>,
  the second admits the first two raws only (sums \<open>26.5\<close> and \<open>2.5\<close>), and the
  calibrated reading has the mean \<open>10.6\<close> and the variance \<open>1\<close> on every axis.
\<close>

theorem calibration_example:
  "snd (find_min_var calib_raw 3 2 [0, 1, 2] (reading calib_state, [Num 1000, Num 1000, Num 1000])) =
     [Num 1, Num 1, Num 1] \<and>
   snd (accumulate calib_raw 3 2 [Num 1, Num 1, Num 1] [0, 1, 2]
          (calib_raw 2, zero_vec 3, zero_vec 3)) =
     ([Num (53 / 2), Num (53 / 2), Num (53 / 2)], [Num (5 / 2), Num (5 / 2), Num (5 / 2)]) \<and>
   reading (init calib_hw 2 calib_state) =
     [Num 2, Num (53 / 5), Num (53 / 5), Num (53 / 5), Num 1, Num 1, Num 1]"
  by (simp add: init_def calib_hw_def calib_raw_def calib_state_def example_state_def
      update_min_var_def update_min_axis_def accumulate_raw_def accumulate_axis_def
      divide_average_def store_calibration_def zero_vec_3)

subsection \<open>The minimal variance\<close>

text \<open>
  What the first loop finds on a window that is not empty, of readings of
  \<open>1 + 2 \<cdot> inns\<close> entries with finite variances on the axis: the smaller of \<open>1000\<close>,
  the value \<^verbatim>\<open>min_var\<close> starts with, and the minimal variance of the window. It is the
  variance of the calibrated reading on the axis.
\<close>

lemma min_var_capped:
  assumes W: "W = window_upto rid (queryAvailableRaws hw (hardwareSensor s))"
    and obs: "obs = observeRaw hw (hardwareSensor s)"
    and ne: "W \<noteq> []" and n: "3 \<le> inns s" and i: "i < 3"
    and len: "\<forall>it\<in>set W. length (obs it) = 2 * inns s + 1"
    and var: "\<forall>it\<in>set W. obs it ! (i + 1 + inns s) = Num (var it)"
  shows "snd (find_min_var obs (inns s) rid (queryAvailableRaws hw (hardwareSensor s))
                (reading s, [Num 1000, Num 1000, Num 1000])) ! i =
           Num (Min (insert 1000 (var ` set W))) \<and>
         reading (init hw rid s) ! (i + 1 + inns s) = Num (Min (insert 1000 (var ` set W)))"
proof -
  let ?avail = "queryAvailableRaws hw (hardwareSensor s)"
  let ?fm = "find_min_var obs (inns s) rid ?avail (reading s, [Num 1000, Num 1000, Num 1000])"
  let ?ac = "accumulate obs (inns s) rid (snd ?fm) ?avail (fst ?fm, zero_vec 3, zero_vec 3)"
  have start: "[Num 1000, Num 1000, Num 1000] ! i = Num 1000"
    using less_3_cases[OF i] by auto
  have "snd ?fm ! i = Num (fold min (map var W) 1000)"
    unfolding find_min_var_snd W[symmetric]
    by (rule fold_min_var_nth[OF _ i start var]) simp
  then have a: "snd ?fm ! i = Num (Min (insert 1000 (var ` set W)))"
    by (simp add: fold_min_Min)
  have "fst ?ac = obs (last W)"
    using ne by (simp add: accumulate_fst W[symmetric])
  moreover have "last W \<in> set W" using ne by simp
  ultimately have l: "inns s + 3 < length (fst ?ac)"
    using len n by simp
  have "reading (init hw rid s) =
        store_calibration (inns s) (divide_average (fst (snd ?ac)) (snd (snd ?ac))) (snd ?fm) (fst ?ac)"
    by (simp add: init_reading Let_def obs)
  then have "reading (init hw rid s) ! (i + 1 + inns s) = snd ?fm ! i"
    using store_calibration_var[OF n l i] by simp
  then show ?thesis using a by simp
qed

text \<open>The window of three raws: the minimum \<open>1\<close> on the first axis.\<close>

lemma min_var_capped_example:
  "snd (find_min_var calib_raw 3 2 [0, 1, 2] (reading calib_state, [Num 1000, Num 1000, Num 1000])) ! 0 =
     Num 1 \<and>
   reading (init calib_hw 2 calib_state) ! 4 = Num 1"
proof -
  have q: "queryAvailableRaws calib_hw h = [0, 1, 2]" "observeRaw calib_hw h = calib_raw"
    "inns calib_state = 3" for h
    by (simp_all add: calib_hw_def calib_state_def example_state_def)
  have W: "[0, 1, 2] = window_upto 2 (queryAvailableRaws calib_hw (hardwareSensor calib_state))"
    by (simp add: q)
  have obs: "calib_raw = observeRaw calib_hw (hardwareSensor calib_state)"
    by (simp add: q)
  have len: "\<forall>it\<in>set [0, 1, 2]. length (calib_raw it) = 2 * inns calib_state + 1"
    by (simp add: q calib_raw_def)
  have var: "\<forall>it\<in>set [0, 1, 2]. calib_raw it ! (0 + 1 + inns calib_state) = Num (calib_var it)"
    by (simp add: q calib_raw_def calib_var_def)
  have m: "Min (insert 1000 (calib_var ` set [0, 1, 2])) = 1"
    by (simp add: calib_var_def)
  have "snd (find_min_var calib_raw (inns calib_state) 2
               (queryAvailableRaws calib_hw (hardwareSensor calib_state))
               (reading calib_state, [Num 1000, Num 1000, Num 1000])) ! 0 =
          Num (Min (insert 1000 (calib_var ` set [0, 1, 2]))) \<and>
        reading (init calib_hw 2 calib_state) ! (0 + 1 + inns calib_state) =
          Num (Min (insert 1000 (calib_var ` set [0, 1, 2])))"
    by (rule min_var_capped[OF W obs _ _ _ len var]) (simp_all add: q)
  then show ?thesis
    unfolding m by (simp add: q)
qed

text \<open>
  Claim C6: the first loop finds, on every axis, the minimal variance of the window, and
  the calibrated reading has it as its variance. The comment of line 77 says the same
  of the loop. The code misses it when every variance of the window is \<open>1000\<close> or
  more, since \<^verbatim>\<open>min_var\<close> starts at \<open>1000\<close>: for the window of one raw of variance
  \<open>2000\<close> the minimum found, and the variance stored, is \<open>1000\<close>, and the raw, not
  below twice this minimum, is left out of the mean, which is not-a-number.
\<close>

theorem min_var_sentinel:
  "queryAvailableRaws noisy_hw () = [0] \<and>
   observeRaw noisy_hw () 0 = [Num 0, Num 5, Num 5, Num 5, Num 2000, Num 2000, Num 2000] \<and>
   snd (find_min_var (observeRaw noisy_hw ()) 3 0 (queryAvailableRaws noisy_hw ())
          (reading calib_state, [Num 1000, Num 1000, Num 1000])) =
     [Num 1000, Num 1000, Num 1000] \<and>
   reading (init noisy_hw 0 calib_state) =
     [Num 0, NaN, NaN, NaN, Num 1000, Num 1000, Num 1000]"
  by (simp add: init_def noisy_hw_def noisy_raw_def calib_state_def example_state_def
      update_min_var_def update_min_axis_def accumulate_raw_def accumulate_axis_def
      divide_average_def store_calibration_def zero_vec_3)

subsection \<open>Empty and degenerate windows\<close>

text \<open>
  Claim C7, as the code has it. \<^verbatim>\<open>init\<close> has no failure. On a window that is empty,
  or that holds no raw whose variance on an axis is below twice the minimum found, the
  calibrated reading has the mean not-a-number on this axis, the quotient of zero by
  zero, and the minimum found as its variance; \<^verbatim>\<open>process\<close> takes this reading and
  throws nothing (three channels, variances reported, readings of seven entries).
\<close>

theorem degenerate_window_nan:
  assumes W: "W = window_upto rid (queryAvailableRaws hw (hardwareSensor s))"
    and obs: "obs = observeRaw hw (hardwareSensor s)"
    and mv: "min_var = snd (find_min_var obs (inns s) rid (queryAvailableRaws hw (hardwareSensor s))
                              (reading s, [Num 1000, Num 1000, Num 1000]))"
    and cfg: "use_for_init s" "inns s = 3" "hasVar s"
    and i: "i < 3"
    and len: "length (reading s) = 7" "\<forall>it\<in>set W. length (obs it) = 7"
    and none: "\<forall>it\<in>set W. \<not> obs it ! (i + 1 + inns s) < Num 2 * min_var ! i"
  shows "fst (process hw correct rid s) = None \<and>
         reading (acquire hw rid s) = reading (init hw rid s) \<and>
         reading (init hw rid s) ! (i + 1) = NaN \<and>
         reading (init hw rid s) ! (i + 1 + inns s) = min_var ! i"
proof -
  let ?avail = "queryAvailableRaws hw (hardwareSensor s)"
  let ?fm = "find_min_var obs (inns s) rid ?avail (reading s, [Num 1000, Num 1000, Num 1000])"
  let ?ac = "accumulate obs (inns s) rid (snd ?fm) ?avail (fst ?fm, zero_vec 3, zero_vec 3)"
  have sk: "fst (snd ?ac) ! i = Num 0 \<and> snd (snd ?ac) ! i = Num 0"
    using fold_accumulate_skip[OF i none, of "(zero_vec 3, zero_vec 3)"] i
    by (simp add: accumulate_snd W[symmetric] mv[symmetric])
  have "length (fst (snd ?ac)) = 3"
    by (simp add: accumulate_snd)
  then have d: "divide_average (fst (snd ?ac)) (snd (snd ?ac)) ! i = NaN"
    using sk i by (simp add: divide_average_nth)
  have "last W \<in> set W" if "W \<noteq> []"
    using that by simp
  then have "length (fst ?ac) = 7"
    using len by (auto simp: accumulate_fst find_min_var_fst W[symmetric])
  then have l: "inns s + 3 < length (fst ?ac)"
    using cfg(2) by simp
  have n1: "1 \<le> inns s" and n3: "3 \<le> inns s"
    using cfg(2) by simp_all
  have r: "reading (init hw rid s) =
        store_calibration (inns s) (divide_average (fst (snd ?ac)) (snd (snd ?ac))) (snd ?fm) (fst ?ac)"
    by (simp add: init_reading Let_def obs)
  have a: "reading (init hw rid s) ! (i + 1) = NaN"
    unfolding r using store_calibration_mean[OF n1 l i] d by simp
  have b: "reading (init hw rid s) ! (i + 1 + inns s) = min_var ! i"
    unfolding r using store_calibration_var[OF n3 l i] mv by simp
  have c: "fst (process hw correct rid s) = None"
    using cfg by (simp add: process_eq)
  have e: "reading (acquire hw rid s) = reading (init hw rid s)"
    using cfg(1) by (simp add: acquire_def)
  show ?thesis using a b c e by simp
qed

text \<open>
  The window of one raw of variance \<open>2000\<close>: the minimum found is \<open>1000\<close>, the raw is
  not below \<open>2000\<close>, and the mean is not-a-number.
\<close>

theorem degenerate_window_nan_witness:
  "fst (process noisy_hw example_correct 0 calib_state) = None \<and>
   reading (init noisy_hw 0 calib_state) ! 1 = NaN \<and>
   reading (init noisy_hw 0 calib_state) ! 4 = Num 1000"
proof -
  have q: "queryAvailableRaws noisy_hw h = [0]" "observeRaw noisy_hw h rid = noisy_raw"
    "inns calib_state = 3" "use_for_init calib_state" "hasVar calib_state"
    "length (reading calib_state) = 7" for h rid
    by (simp_all add: noisy_hw_def calib_state_def example_state_def)
  have W: "[0] = window_upto 0 (queryAvailableRaws noisy_hw (hardwareSensor calib_state))"
    by (simp add: q)
  have mv: "snd (find_min_var (observeRaw noisy_hw (hardwareSensor calib_state)) (inns calib_state) 0
                   (queryAvailableRaws noisy_hw (hardwareSensor calib_state))
                   (reading calib_state, [Num 1000, Num 1000, Num 1000])) =
            [Num 1000, Num 1000, Num 1000]"
    by (simp add: q noisy_raw_def update_min_var_def update_min_axis_def)
  have len: "\<forall>it\<in>set [0]. length (observeRaw noisy_hw (hardwareSensor calib_state) it) = 7"
    by (simp add: q noisy_raw_def)
  have none: "\<forall>it\<in>set [0]. \<not> observeRaw noisy_hw (hardwareSensor calib_state) it ! (0 + 1 + inns calib_state)
                 < Num 2 * [Num 1000, Num 1000, Num 1000] ! 0"
    by (simp add: q noisy_raw_def)
  show ?thesis
    using degenerate_window_nan[OF W refl mv[symmetric] q(4,3,5) _ q(6) len none,
        where correct = example_correct]
    by (simp add: q)
qed

text \<open>
  Claim C7 as stated fails: on an empty window \<^verbatim>\<open>init\<close> returns a reading, of mean
  not-a-number and variance \<open>1000\<close>, and \<^verbatim>\<open>process\<close> throws nothing.
\<close>

theorem empty_window_counterexample:
  "queryAvailableRaws empty_hw (hardwareSensor calib_state) = [] \<and>
   reading (init empty_hw 0 calib_state) = [Num 0, NaN, NaN, NaN, Num 1000, Num 1000, Num 1000] \<and>
   fst (process empty_hw example_correct 0 calib_state) = None"
  by (simp add: init_def empty_hw_def calib_state_def example_state_def
      update_min_var_def update_min_axis_def accumulate_raw_def accumulate_axis_def
      divide_average_def store_calibration_def zero_vec_def process_eq eval_nat_numeral)

subsection \<open>The covariance of the measurement\<close>

text \<open>
  Lines 146 to 148 on any call that reaches them: the squares of the deviation channels
  of the reading the call works on, in the order 2, 1, 3, on the diagonal, and every
  other entry as it was.
\<close>

lemma process_measurement_cov:
  assumes "inns s = 3" and "hasVar s"
    and "g_P (measurement s) = [[a0, a1, a2], [b0, b1, b2], [c0, c1, c2]]"
  shows "g_P (measurement (snd (process hw correct rid s))) =
           [[sqr (reading (acquire hw rid s) ! 5), a1, a2],
            [b0, sqr (reading (acquire hw rid s) ! 4), b2],
            [c0, c1, sqr (reading (acquire hw rid s) ! 6)]]"
proof -
  have "g_P (measurement (snd (process hw correct rid s))) =
        g_P (measurement (set_measurement_P (modelled hw rid s)))"
    using assms(1,2) by (simp add: process_eq)
  also have "\<dots> = [[sqr (reading (acquire hw rid s) ! 5), a1, a2],
                    [b0, sqr (reading (acquire hw rid s) ! 4), b2],
                    [c0, c1, sqr (reading (acquire hw rid s) ! 6)]]"
    using assms(1,3) by (subst set_measurement_P_cov[where s = "modelled hw rid s"])
      (simp_all add: modelled_measurement)
  finally show ?thesis .
qed

lemma acquire_direct:
  "\<not> use_for_init s \<Longrightarrow> reading (acquire hw rid s) = fst (getRaw hw (hardwareSensor s) rid)"
  by (simp add: acquire_def split: prod.splits)

lemma acquire_calibrated:
  "use_for_init s \<Longrightarrow> reading (acquire hw rid s) = reading (init hw rid s)"
  by (simp add: acquire_def)

lemma calib_init_reading:
  "reading (init calib_hw 2 calib_state) =
     [Num 2, Num (53 / 5), Num (53 / 5), Num (53 / 5), Num 1, Num 1, Num 1]"
  by (simp add: init_def calib_hw_def calib_raw_def calib_state_def example_state_def
      update_min_var_def update_min_axis_def accumulate_raw_def accumulate_axis_def
      divide_average_def store_calibration_def zero_vec_3)

text \<open>
  Claim C8, as the code has it. With three channels, variances reported and the reading
  taken from the driver (\<^verbatim>\<open>use_for_init\<close> false), the call writes on the diagonal of the
  covariance of the measurement the squares of the deviations the driver reports,
  channels 2, 1 and 3 for the axes 0, 1 and 2, and leaves every other entry as it was:
  the covariance is diagonal after the call when it was before.
\<close>

theorem measurement_cov_diagonal:
  assumes "inns s = 3" and "hasVar s" and "\<not> use_for_init s"
    and "g_P (measurement s) = [[a0, a1, a2], [b0, b1, b2], [c0, c1, c2]]"
    and r: "r = fst (getRaw hw (hardwareSensor s) rid)"
  shows "g_P (measurement (snd (process hw correct rid s))) =
           [[sqr (r ! 5), a1, a2], [b0, sqr (r ! 4), b2], [c0, c1, sqr (r ! 6)]]"
  using process_measurement_cov[OF assms(1,2,4), of hw correct rid] acquire_direct[OF assms(3), of hw rid]
  by (simp add: r)

text \<open>
  The driver of distinct deviations \<open>2\<close>, \<open>3\<close> and \<open>4\<close>: the squares \<open>9\<close>, \<open>4\<close> and
  \<open>16\<close> in the order of the axes.
\<close>

theorem measurement_cov_diagonal_witness:
  "fst (getRaw skew_hw (hardwareSensor example_state) 0) =
     [Num 0, Num 5, Num 6, Num 7, Num 2, Num 3, Num 4] \<and>
   g_P (measurement (snd (process skew_hw example_correct 0 example_state))) =
     [[Num 9, Num 0, Num 0], [Num 0, Num 4, Num 0], [Num 0, Num 0, Num 16]]"
proof -
  have h: "inns example_state = 3" "hasVar example_state" "\<not> use_for_init example_state"
    "g_P (measurement example_state) =
       [[Num 0, Num 0, Num 0], [Num 0, Num 0, Num 0], [Num 0, Num 0, Num 0]]"
    by (simp_all add: example_state_def zero_mat_3_3)
  have g: "fst (getRaw skew_hw h 0) = [Num 0, Num 5, Num 6, Num 7, Num 2, Num 3, Num 4]" for h
    by (simp add: skew_hw_def skew_raw_def)
  show ?thesis
    using measurement_cov_diagonal[OF h refl, where hw = skew_hw and rid = 0
        and correct = example_correct]
    by (simp add: g sqr_def)
qed

text \<open>
  Claim C8 as stated fails on a calibrated reading (\<^verbatim>\<open>use_for_init\<close> true): \<^verbatim>\<open>init\<close> has
  put the minimum it found in the deviation channels. On the window of three raws the
  driver reports the deviation \<open>5\<close> for the raw asked for, and the diagonal holds \<open>1\<close>,
  not \<open>25\<close>.
\<close>

theorem measurement_cov_calibrated_counterexample:
  "use_for_init calib_state \<and>
   fst (getRaw calib_hw (hardwareSensor calib_state) 2) =
     [Num 2, Num 100, Num 100, Num 100, Num 5, Num 5, Num 5] \<and>
   g_P (measurement (snd (process calib_hw example_correct 2 calib_state))) =
     [[Num 1, Num 0, Num 0], [Num 0, Num 1, Num 0], [Num 0, Num 0, Num 1]] \<and>
   g_P (measurement (snd (process calib_hw example_correct 2 calib_state))) ! 0 ! 0 \<noteq>
     sqr (fst (getRaw calib_hw (hardwareSensor calib_state) 2) ! 5)"
proof -
  have h: "inns calib_state = 3" "hasVar calib_state"
    "g_P (measurement calib_state) =
       [[Num 0, Num 0, Num 0], [Num 0, Num 0, Num 0], [Num 0, Num 0, Num 0]]"
    by (simp_all add: calib_state_def example_state_def zero_mat_3_3)
  have u: "use_for_init calib_state"
    by (simp add: calib_state_def)
  have g: "fst (getRaw calib_hw h 2) = [Num 2, Num 100, Num 100, Num 100, Num 5, Num 5, Num 5]"
    for h
    by (simp add: calib_hw_def calib_raw_def)
  have P: "g_P (measurement (snd (process calib_hw example_correct 2 calib_state))) =
             [[Num 1, Num 0, Num 0], [Num 0, Num 1, Num 0], [Num 0, Num 0, Num 1]]"
    using process_measurement_cov[OF h, of calib_hw example_correct 2]
    by (simp add: acquire_calibrated[OF u] calib_init_reading sqr_def)
  show ?thesis
    by (simp add: u g P sqr_def)
qed

subsection \<open>The cross-Jacobian\<close>

text \<open>
  Claim C9. On a reading that is not the first (three channels, variances reported),
  \<open>m\<close> being the state the measurement model leaves, the call is the correction of
  the filter with the innovation of \<open>m\<close> and, as cross-Jacobian, the negation of the
  Jacobian \<^verbatim>\<open>EXP_rs\<close> of \<open>m\<close>, the one its expectation was computed with.
\<close>

theorem cross_jacobian_negation:
  assumes "origin s \<noteq> []" and "inns s = 3" and "hasVar s"
    and m: "m = snd (measurement_model (subrange (pose_x s) 0 3) (subrange (g_x (robot_pose s)) 0 3)
                  (subrange (g_x (robot_pose s)) 3 7)
                  (quaternion_rotate (subrange (g_x (robot_pose s)) 3 7) (subrange (pose_x s) 0 3))
                  (acquire hw rid s))"
  shows "process hw correct rid s =
           (None, release hw rid
              (m\<lparr>robot_pose := fst (correct (ia_used_states m) (innovation m) (mat_neg (EXP_rs m))
                                      (ia_rs m) (robot_pose m, filter_P m)),
                 filter_P := snd (correct (ia_used_states m) (innovation m) (mat_neg (EXP_rs m))
                                      (ia_rs m) (robot_pose m, filter_P m))\<rparr>)) \<and>
         g_P (expectation m) = prod_JPJt (project (filter_P s) (ia_rs s) (ia_rs s)) (EXP_rs m) \<and>
         INN_rs (snd (process hw correct rid s)) = mat_neg (EXP_rs (snd (process hw correct rid s)))"
proof -
  have p: "prepared hw rid s = acquire hw rid s"
    using assms(1) by (simp add: prepared_def)
  have m': "m = set_innovation (set_measurement_P (modelled hw rid s))"
    using measurement_model_eq[OF assms(2,3), of hw rid] by (simp add: m p)
  have "process hw correct rid s = (None, release hw rid (dispatch correct m))"
    using assms by (simp add: process_eq m')
  moreover have "INN_rs m = mat_neg (EXP_rs m)"
    by (simp add: m')
  moreover have "g_P (expectation m) = prod_JPJt (project (filter_P s) (ia_rs s) (ia_rs s)) (EXP_rs m)"
    by (simp add: m' modelled_expectation)
  ultimately show ?thesis
    by (simp add: dispatch_def split: prod.splits)
qed

text \<open>The example sensor with its origin set.\<close>

theorem cross_jacobian_negation_witness:
  "fst (process example_hw example_correct 0 later_state) = None \<and>
   INN_rs (snd (process example_hw example_correct 0 later_state)) =
     mat_neg (EXP_rs (snd (process example_hw example_correct 0 later_state)))"
proof -
  have h: "origin later_state \<noteq> []" "inns later_state = 3" "hasVar later_state"
    by (simp_all add: later_state_def example_state_def)
  note t = cross_jacobian_negation[OF h refl, where hw = example_hw and rid = 0
      and correct = example_correct]
  have a: "fst (process example_hw example_correct 0 later_state) = None"
    using conjunct1[OF t] by simp
  show ?thesis
    using a conjunct2[OF conjunct2[OF t]] by (rule conjI)
qed

subsection \<open>What the first reading writes\<close>

text \<open>
  Claim C10. A first reading, under either policy, keeps the size of the pose, its
  entries from index 3 on (the quaternion), the shape of its covariance and every entry
  of the covariance outside the first three rows and columns; and the result does not
  depend on the correction of the filter, which is not called.
\<close>

theorem bootstrap_frame:
  assumes "origin s = []" and s': "s' = snd (process hw correct rid s)"
  shows "length (g_x (robot_pose s')) = length (g_x (robot_pose s)) \<and>
         drop 3 (g_x (robot_pose s')) = drop 3 (g_x (robot_pose s)) \<and>
         map length (g_P (robot_pose s')) = map length (g_P (robot_pose s)) \<and>
         (\<forall>i j. i < length (g_P (robot_pose s)) \<and> j < length (g_P (robot_pose s) ! i) \<and>
                \<not> (i < 3 \<and> j < 3) \<longrightarrow>
                g_P (robot_pose s') ! i ! j = g_P (robot_pose s) ! i ! j) \<and>
         process hw correct' rid s = process hw correct rid s"
proof (cases "inns s = 3 \<and> hasVar s")
  case False
  then show ?thesis by (auto simp: s' process_eq)
next
  case True
  let ?m = "set_innovation (set_measurement_P (modelled hw rid s))"
  let ?Tr = "quaternion_rotate (subrange (g_x (robot_pose s)) 3 7) (subrange (pose_x s) 0 3)"
  have rp: "robot_pose s' = robot_pose (bootstrap ?Tr ?m)"
    using True assms(1) by (simp add: s' process_eq)
  have m: "inns ?m = 3" "robot_pose ?m = robot_pose s"
    using True by simp_all
  have x: "g_x (robot_pose s') = assign_subrange (g_x (robot_pose s)) 0 3
             (if absolute ?m then vec_sub (g_x (measurement ?m)) ?Tr else zero_vec 3)"
    unfolding rp bootstrap_pose(1)[OF m(1)] m(2) ..
  have P: "g_P (robot_pose s') = assign_subrange_m (g_P (robot_pose s)) 0 3 0 3
             (mat_add (g_P (measurement ?m))
                (prod_JPJt (subrange_m (g_P (robot_pose s)) 3 7 3 7) (EXP_q ?m)))"
    unfolding rp bootstrap_pose(2)[OF m(1)] m(2) ..
  have "process hw correct' rid s = process hw correct rid s"
    using True assms(1) by (simp add: process_eq)
  then show ?thesis
    by (auto simp: x P drop_assign_subrange nth_assign_subrange_m nth_assign_subrange)
qed

text \<open>The example sensor: the identity quaternion is kept.\<close>

theorem bootstrap_frame_witness:
  "drop 3 (g_x (robot_pose (snd (process example_hw example_correct 0 example_state)))) =
     [Num 1, Num 0, Num 0, Num 0] \<and>
   g_P (robot_pose (snd (process example_hw example_correct 0 example_state))) ! 3 ! 3 = Num 0"
proof -
  have h: "origin example_state = []"
    by (simp add: example_state_def)
  have P: "g_P (robot_pose example_state) = replicate 7 (replicate 7 (Num 0))"
    by (simp add: example_state_def zero_mat_def zero_vec_def)
  have x: "drop 3 (g_x (robot_pose example_state)) = [Num 1, Num 0, Num 0, Num 0]"
    by (simp add: example_state_def)
  show ?thesis
    using bootstrap_frame[OF h refl, where hw = example_hw and rid = 0
        and correct = example_correct]
    by (simp add: P x)
qed

end
